theory Spec2Isabelle
  imports Complex_Main "HOL-Library.Word"
begin

unbundle bit_operations_syntax

section \<open>JavaScript values used by the comparator\<close>

text \<open>
  A JavaScript string is a sequence of UTF-16 code units. The model uses Isabelle's
  \<open>string\<close>, whose characters are 8 bits wide: a \<open>char\<close> stands for the code unit
  with the same number, so the model covers the strings whose code units are below 256.
  \<open>length\<close> is then the \<open>.length\<close> of the source.

  A JavaScript \<open>number\<close> is modelled as a \<open>real\<close>. The arithmetic that the comparator
  itself carries out is exact in double precision on the inputs the theorems cover:
  the bit counts of \<open>hammingDistance\<close> are integers far below \<open>2 ^ 53\<close>, and the
  normalisation of \<open>compareNilsimsa\<close> is stated for integer scores of magnitude at most
  \<open>2 ^ 53 - 128\<close>. Rounding of other scores and the value \<open>NaN\<close> as a result of the SDK
  are outside the model. \<open>NaN\<close> as a result of \<open>parseInt\<close> is modelled, as \<open>None\<close>.
\<close>

type_synonym number = real

datatype thrown = Thrown string

text \<open>
  The functions imported from the package \<open>@ilovehash/sdk\<close>. Their code is not part of
  the files verified here, so they are a parameter of the comparator. A call either
  returns a number or throws.
\<close>

record sdk =
  simhashHammingDistance :: "string \<Rightarrow> string \<Rightarrow> thrown + number"
  simhashSimilarity :: "string \<Rightarrow> string \<Rightarrow> thrown + number"
  minhashJaccard :: "32 word list \<Rightarrow> 32 word list \<Rightarrow> thrown + number"
  nilsimsaCompare :: "string \<Rightarrow> string \<Rightarrow> thrown + number"

text \<open>
  The object \<open>{ distance?: number; similarity?: number }\<close> that
  \<open>compareSimilarityHashes\<close> resolves to. An absent field is \<open>None\<close>.
\<close>

record comparison =
  distance :: "number option"
  similarity :: "number option"

subsection \<open>\<open>parseInt(s, 16)\<close>\<close>

text \<open>
  White space and line terminators among the code units below 256: tab, line feed,
  vertical tab, form feed, carriage return, space and no-break space.
\<close>

definition isWhiteSpace :: "char \<Rightarrow> bool" where
  "isWhiteSpace c = ((of_char c :: nat) \<in> {9, 10, 11, 12, 13, 32, 160})"

definition hexDigit :: "char \<Rightarrow> int option" where
  "hexDigit c =
     (let n = (of_char c :: nat) in
      if 48 \<le> n \<and> n \<le> 57 then Some (int n - 48)
      else if 97 \<le> n \<and> n \<le> 102 then Some (int n - 87)
      else if 65 \<le> n \<and> n \<le> 70 then Some (int n - 55)
      else None)"

fun hexPrefix :: "string \<Rightarrow> int list" where
  "hexPrefix [] = []"
| "hexPrefix (c # cs) = (case hexDigit c of None \<Rightarrow> [] | Some d \<Rightarrow> d # hexPrefix cs)"

text \<open>
  \<open>parseInt(s, 16)\<close>: skip leading white space, read an optional sign, skip an optional
  \<open>0x\<close> or \<open>0X\<close>, read the longest run of hexadecimal digits. No digit gives \<open>NaN\<close>,
  here \<open>None\<close>. The source calls it on strings of at most eight characters, where the
  value is an integer below \<open>2 ^ 32\<close> in magnitude and therefore exact.
\<close>

definition parseInt16 :: "string \<Rightarrow> int option" where
  "parseInt16 s =
     (let t = dropWhile isWhiteSpace s;
          sign = (case t of c # r \<Rightarrow> if c = CHR ''-'' then - 1 else 1 | [] \<Rightarrow> (1 :: int));
          u = (case t of c # r \<Rightarrow> if c = CHR ''-'' \<or> c = CHR ''+'' then r else t | [] \<Rightarrow> t);
          v = (case u of
                 c # x # r \<Rightarrow> if c = CHR ''0'' \<and> (x = CHR ''x'' \<or> x = CHR ''X'') then r else u
               | _ \<Rightarrow> u);
          ds = hexPrefix v
      in if ds = [] then None else Some (sign * foldl (\<lambda>a d. 16 * a + d) 0 ds))"

text \<open>\<open>ToInt32\<close> and \<open>ToUint32\<close>: \<open>NaN\<close> becomes 0, an integer is reduced modulo \<open>2 ^ 32\<close>.\<close>

definition toInt32 :: "int option \<Rightarrow> 32 word" where
  "toInt32 v = (case v of None \<Rightarrow> 0 | Some n \<Rightarrow> word_of_int n)"

definition toUint32 :: "int option \<Rightarrow> 32 word" where
  "toUint32 v = (case v of None \<Rightarrow> 0 | Some n \<Rightarrow> word_of_int n)"

section \<open>similarity.ts\<close>

subsection \<open>\<open>compareSimHash\<close>\<close>

definition compareSimHash :: "sdk \<Rightarrow> string \<Rightarrow> string \<Rightarrow> thrown + comparison" where
  "compareSimHash k hash1 hash2 =
     (case simhashHammingDistance k hash1 hash2 of
        Inl e \<Rightarrow> Inl e
      | Inr d \<Rightarrow>
          (case simhashSimilarity k hash1 hash2 of
             Inl e \<Rightarrow> Inl e
           | Inr s \<Rightarrow> Inr \<lparr>distance = Some d, similarity = Some s\<rparr>))"

subsection \<open>\<open>parseMinHashSignature\<close> and \<open>compareMinHash\<close>\<close>

text \<open>
  \<open>hex.slice(i * 8, (i + 1) * 8)\<close> is \<open>take 8 (drop (i * 8) hex)\<close>; the element stored
  in the \<open>Uint32Array\<close> is the \<open>ToUint32\<close> of the parsed number. Nothing in the body
  throws in the model, so the \<open>catch\<close> branch of the source has no counterpart
  (an allocation failure of \<open>new Uint32Array\<close> would end there, with \<open>null\<close> as well).
\<close>

definition parseMinHashSignature :: "string \<Rightarrow> 32 word list option" where
  "parseMinHashSignature hex =
     (if length hex mod 8 \<noteq> 0 then None
      else Some (map (\<lambda>i. toUint32 (parseInt16 (take 8 (drop (i * 8) hex))))
                     [0 ..< length hex div 8]))"

text \<open>
  \<open>sig1 && sig2\<close> holds exactly when both are arrays (an array is truthy, also when it
  is empty). A throw of \<open>sdk.minhashJaccard\<close> is caught and logged, and the function
  returns \<open>null\<close>, here \<open>None\<close>.
\<close>

definition compareMinHash :: "sdk \<Rightarrow> string \<Rightarrow> string \<Rightarrow> comparison option" where
  "compareMinHash k hash1 hash2 =
     (let sig1 = parseMinHashSignature hash1;
          sig2 = parseMinHashSignature hash2
      in case sig1 of
           None \<Rightarrow> None
         | Some a \<Rightarrow>
             (case sig2 of
                None \<Rightarrow> None
              | Some b \<Rightarrow>
                  (case minhashJaccard k a b of
                     Inl e \<Rightarrow> None
                   | Inr s \<Rightarrow> Some \<lparr>distance = None, similarity = Some s\<rparr>)))"

subsection \<open>\<open>compareNilsimsa\<close>\<close>

text \<open>
  The source adds, subtracts and divides in double precision, the definition in the
  reals. The two agree where the score is an integer \<open>n\<close> with \<open>\<bar>n\<bar> \<le> 2 ^ 53 - 128\<close>: then
  \<open>n + 128\<close> and \<open>128 - n\<close> are integers of magnitude at most \<open>2 ^ 53\<close>, which a double
  holds exactly, and the division by \<open>256 = 2 ^ 8\<close> only lowers the exponent. Outside
  this range (a score such as \<open>2 ^ 60\<close> or \<open>0.1\<close>) the source rounds and the definition
  does not, so what is proved of the values of \<open>compareNilsimsa\<close> carries the bound.
\<close>

definition compareNilsimsa :: "sdk \<Rightarrow> string \<Rightarrow> string \<Rightarrow> thrown + comparison" where
  "compareNilsimsa k hash1 hash2 =
     (case nilsimsaCompare k hash1 hash2 of
        Inl e \<Rightarrow> Inl e
      | Inr compareResult \<Rightarrow>
          (let similarity = (compareResult + 128) / 256;
               distance = 128 - compareResult
           in Inr \<lparr>distance = Some distance, similarity = Some similarity\<rparr>))"

subsection \<open>\<open>hammingDistance\<close>\<close>

text \<open>
  \<open>hex[i] || '0'\<close>: the one-character string at index \<open>i\<close>, which is never falsy, or
  \<open>'0'\<close> where the index is out of range and \<open>hex[i]\<close> is \<open>undefined\<close>.
\<close>

definition charOrZero :: "string \<Rightarrow> nat \<Rightarrow> string" where
  "charOrZero hex i = (if i < length hex then [hex ! i] else ''0'')"

text \<open>
  The bits counted for one position: \<open>^\<close>, \<open>&\<close> and \<open>>>\<close> work on 32-bit integers,
  \<open>>>\<close> keeping the sign.
\<close>

definition nibbleBits :: "string \<Rightarrow> string \<Rightarrow> nat \<Rightarrow> int" where
  "nibbleBits hex1 hex2 i =
     (let val1 = parseInt16 (charOrZero hex1 i);
          val2 = parseInt16 (charOrZero hex2 i);
          xor = toInt32 val1 XOR toInt32 val2
      in sint (xor AND 1) + sint (signed_drop_bit 1 xor AND 1)
         + sint (signed_drop_bit 2 xor AND 1) + sint (signed_drop_bit 3 xor AND 1))"

text \<open>
  The \<open>for\<close> loop, from index \<open>i\<close> on; \<open>acc\<close> is the variable \<open>distance\<close> of the source.
\<close>

function hammingLoop :: "string \<Rightarrow> string \<Rightarrow> nat \<Rightarrow> int \<Rightarrow> int" where
  "hammingLoop hex1 hex2 i acc =
     (if i < length hex1
      then hammingLoop hex1 hex2 (i + 1) (acc + nibbleBits hex1 hex2 i)
      else acc)"
  by pat_completeness auto
termination
  by (relation "measure (\<lambda>(hex1, hex2, i, acc). length hex1 - i)") auto

declare hammingLoop.simps [simp del]

definition hammingDistance :: "string \<Rightarrow> string \<Rightarrow> int" where
  "hammingDistance hex1 hex2 =
     (if length hex1 \<noteq> length hex2 then - 1 else hammingLoop hex1 hex2 0 0)"

subsection \<open>\<open>compareSimilarityHashes\<close>\<close>

text \<open>
  The function is \<open>async\<close>: \<open>Inl e\<close> is the promise rejected with \<open>e\<close>, \<open>Inr None\<close> the
  promise resolved to \<open>null\<close>, \<open>Inr (Some r)\<close> the promise resolved to the object \<open>r\<close>.
\<close>

definition compareSimilarityHashes ::
  "sdk \<Rightarrow> string \<Rightarrow> string \<Rightarrow> string \<Rightarrow> thrown + comparison option" where
  "compareSimilarityHashes k algorithm hash1 hash2 =
     (if algorithm = ''simhash'' then map_sum (\<lambda>e. e) Some (compareSimHash k hash1 hash2)
      else if algorithm = ''minhash'' \<or> algorithm = ''bbitminhash''
              \<or> algorithm = ''superminhash''
        then Inr (compareMinHash k hash1 hash2)
      else if algorithm = ''nilsimsa'' then map_sum (\<lambda>e. e) Some (compareNilsimsa k hash1 hash2)
      else if algorithm = ''imatch''
        then Inr (Some \<lparr>distance = Some (of_int (hammingDistance hash1 hash2)), similarity = None\<rparr>)
      else Inr (Some \<lparr>distance = Some (of_int (hammingDistance hash1 hash2)), similarity = None\<rparr>))"

section \<open>JavaScript objects used as dictionaries\<close>

text \<open>
  An object of type \<open>Record<string, V>\<close> is modelled by the list of its own properties in
  the order in which they were created, which is the order \<open>Object.keys\<close> and
  \<open>Object.entries\<close> enumerate them in as long as no key is an array index (no key of
  this program is). A property that is already there keeps its place when it is
  written again.
\<close>

type_synonym 'v obj = "(string \<times> 'v) list"

definition objSet :: "'v obj \<Rightarrow> string \<Rightarrow> 'v \<Rightarrow> 'v obj" where
  "objSet ob k v =
     (if k \<in> fst ` set ob then map (\<lambda>(k', v'). if k' = k then (k', v) else (k', v')) ob
      else ob @ [(k, v)])"

text \<open>
  An object literal and \<open>Object.fromEntries\<close> define the properties one after the other.
  (A literal would take the key \<open>__proto__\<close> for the prototype; lemma \<open>literal_no_proto\<close>
  shows that the catalog has no such key.)
\<close>

definition objLiteral :: "(string \<times> 'v) list \<Rightarrow> 'v obj" where
  "objLiteral kvs = foldl (\<lambda>ob (k, v). objSet ob k v) [] kvs"

definition fromEntries :: "(string \<times> 'v) list \<Rightarrow> 'v obj" where
  "fromEntries kvs = foldl (\<lambda>ob (k, v). objSet ob k v) [] kvs"

definition keys :: "'v obj \<Rightarrow> string list" where
  "keys ob = map fst ob"

text \<open>
  The objects \<open>{}\<close> of the source inherit from \<open>Object.prototype\<close>, so a read \<open>ob[k]\<close>
  finds the own property \<open>k\<close>, or else the member of \<open>Object.prototype\<close> of that name,
  or else \<open>undefined\<close>. The members are functions, and \<open>__proto__\<close> yields the prototype
  object itself: all of them are truthy and none is a string or an array.
\<close>

definition protoNames :: "string list" where
  "protoNames =
     [''constructor'', ''__defineGetter__'', ''__defineSetter__'', ''hasOwnProperty'',
      ''__lookupGetter__'', ''__lookupSetter__'', ''isPrototypeOf'', ''propertyIsEnumerable'',
      ''toString'', ''valueOf'', ''__proto__'', ''toLocaleString'']"

datatype 'v lookup = Own 'v | Inherited string | Undefined

definition objGet :: "'v obj \<Rightarrow> string \<Rightarrow> 'v lookup" where
  "objGet ob k =
     (case map_of ob k of
        Some v \<Rightarrow> Own v
      | None \<Rightarrow> if k \<in> set protoNames then Inherited k else Undefined)"

section \<open>hash-metadata.ts\<close>

subsection \<open>The catalog\<close>

datatype AlgorithmUIMode = UI_standard | UI_password | UI_similarity | UI_hmac | UI_hkdf

datatype ParameterType = T_text | T_number | T_textarea

datatype ParameterDefault = DefaultString string | DefaultNumber int

text \<open>
  The fields \<open>id\<close>, \<open>type\<close>, \<open>min\<close> and \<open>max\<close> of \<open>ParameterConfig\<close> carry a prime here,
  their names being taken in HOL. An optional field that is absent is \<open>None\<close>.
\<close>

record ParameterConfig =
  id' :: string
  label :: string
  type' :: ParameterType
  required :: bool
  defaultValue :: "ParameterDefault option"
  placeholder :: "string option"
  min' :: "int option"
  max' :: "int option"
  generateRandom :: "bool option"

record HashAlgorithm =
  name :: string
  description :: string
  category :: string
  nodeCryptoName :: "string option"
  npmPackage :: "string option"
  outputLength :: "int option"
  isSlow :: "bool option"
  legacy :: "bool option"
  demo :: "bool option"
  uiMode :: "AlgorithmUIMode option"
  parameters :: "ParameterConfig list option"
  supportsComparison :: "bool option"

text \<open>
  The object literals of the catalog give the required fields and some of the optional
  ones; \<open>param\<close> and \<open>algo\<close> are the literals with the required fields only.
\<close>

definition param :: "string \<Rightarrow> string \<Rightarrow> ParameterType \<Rightarrow> bool \<Rightarrow> ParameterConfig" where
  "param i l t r =
     \<lparr>id' = i, label = l, type' = t, required = r, defaultValue = None, placeholder = None,
      min' = None, max' = None, generateRandom = None\<rparr>"

definition algo :: "string \<Rightarrow> string \<Rightarrow> string \<Rightarrow> HashAlgorithm" where
  "algo n d c =
     \<lparr>name = n, description = d, category = c, nodeCryptoName = None, npmPackage = None,
      outputLength = None, isSlow = None, legacy = None, demo = None, uiMode = None,
      parameters = None, supportsComparison = None\<rparr>"

definition RAW_HASH_ALGORITHMS_literal :: "(string \<times> HashAlgorithm) list" where
  "RAW_HASH_ALGORITHMS_literal =
     [(''md5'',
       (algo ''MD5''
         ''Legacy MD5 hash - deprecated for security, use SHA-256 or BLAKE2 instead for any security needs''
         ''Cryptographic'')
        \<lparr>nodeCryptoName := Some ''md5'',
         outputLength := Some 16,
         legacy := Some True\<rparr>),
      (''sha1'',
       (algo ''SHA-1''
         ''Deprecated SHA-1 hash - cryptographically broken, use SHA-256 or SHA-3 for secure applications''
         ''Cryptographic'')
        \<lparr>nodeCryptoName := Some ''sha1'',
         outputLength := Some 20,
         legacy := Some True\<rparr>),
      (''sha224'',
       (algo ''SHA-224''
         ''Secure SHA-224 cryptographic hash for digital signatures and certificates''
         ''SHA-2'')
        \<lparr>nodeCryptoName := Some ''sha224'',
         outputLength := Some 28\<rparr>),
      (''sha256'',
       (algo ''SHA-256''
         ''Industry-standard SHA-256 secure hash for blockchain, TLS, and digital security''
         ''SHA-2'')
        \<lparr>nodeCryptoName := Some ''sha256'',
         outputLength := Some 32\<rparr>),
      (''sha384'',
       (algo ''SHA-384''
         ''High-security SHA-384 hash for government and enterprise cryptographic applications''
         ''SHA-2'')
        \<lparr>nodeCryptoName := Some ''sha384'',
         outputLength := Some 48\<rparr>),
      (''sha512'',
       (algo ''SHA-512''
         ''Powerful SHA-512 cryptographic hash for maximum security and large data integrity''
         ''SHA-2'')
        \<lparr>nodeCryptoName := Some ''sha512'',
         outputLength := Some 64\<rparr>),
      (''sha512-224'',
       (algo ''SHA-512/224''
         ''Truncated SHA-512/224 hash - secure 224-bit output from SHA-512 algorithm''
         ''SHA-2'')
        \<lparr>nodeCryptoName := Some ''sha512-224'',
         outputLength := Some 28\<rparr>),
      (''sha512-256'',
       (algo ''SHA-512/256''
         ''Truncated SHA-512/256 hash - secure 256-bit output from SHA-512 algorithm''
         ''SHA-2'')
        \<lparr>nodeCryptoName := Some ''sha512-256'',
         outputLength := Some 32\<rparr>),
      (''ripemd160'',
       (algo ''RIPEMD-160''
         ''European RIPEMD-160 cryptographic hash - alternative to SHA-1 for digital signatures''
         ''Cryptographic'')
        \<lparr>nodeCryptoName := Some ''ripemd160'',
         outputLength := Some 20\<rparr>),
      (''sha3-224'',
       (algo ''SHA-3-224''
         ''Next-generation SHA-3-224 cryptographic hash with quantum-resistant security''
         ''SHA-3'')
        \<lparr>nodeCryptoName := Some ''sha3-224'',
         outputLength := Some 28\<rparr>),
      (''sha3-256'',
       (algo ''SHA-3-256''
         ''Future-proof SHA-3-256 hash algorithm replacing SHA-2 for enhanced security''
         ''SHA-3'')
        \<lparr>nodeCryptoName := Some ''sha3-256'',
         outputLength := Some 32\<rparr>),
      (''sha3-384'',
       (algo ''SHA-3-384''
         ''High-security SHA-3-384 hash for government and critical infrastructure protection''
         ''SHA-3'')
        \<lparr>nodeCryptoName := Some ''sha3-384'',
         outputLength := Some 48\<rparr>),
      (''sha3-512'',
       (algo ''SHA-3-512''
         ''Maximum-security SHA-3-512 hash for large data integrity and digital signatures''
         ''SHA-3'')
        \<lparr>nodeCryptoName := Some ''sha3-512'',
         outputLength := Some 64\<rparr>),
      (''keccak-224'',
       (algo ''Keccak-224''
         ''Original Keccak-224 hash - foundation of SHA-3 standard for Ethereum and blockchain''
         ''Cryptographic'')
        \<lparr>outputLength := Some 28\<rparr>),
      (''keccak-256'',
       (algo ''Keccak-256''
         ''Keccak-256 hash algorithm used in Ethereum blockchain and cryptocurrency security''
         ''Cryptographic'')
        \<lparr>outputLength := Some 32\<rparr>),
      (''keccak-384'',
       (algo ''Keccak-384''
         ''High-security Keccak-384 cryptographic hash for advanced digital security applications''
         ''Cryptographic'')
        \<lparr>outputLength := Some 48\<rparr>),
      (''keccak-512'',
       (algo ''Keccak-512''
         ''Maximum-security Keccak-512 hash for large-scale data integrity and encryption''
         ''Cryptographic'')
        \<lparr>outputLength := Some 64\<rparr>),
      (''shake128'',
       (algo ''SHAKE128''
         ''Flexible SHAKE128 extendable-output function - generate hashes of any length securely''
         ''SHAKE'')
        \<lparr>nodeCryptoName := Some ''shake128'',
         outputLength := Some 32,
         parameters := Some
           [(param ''outputLength'' ''Output Length (bits)'' T_number False)\<lparr>defaultValue := Some (DefaultNumber 256), min' := Some 8, max' := Some 8192, placeholder := Some ''Output length in bits''\<rparr>]\<rparr>),
      (''shake256'',
       (algo ''SHAKE256''
         ''High-security SHAKE256 extendable-output function for customizable hash lengths''
         ''SHAKE'')
        \<lparr>nodeCryptoName := Some ''shake256'',
         outputLength := Some 32,
         parameters := Some
           [(param ''outputLength'' ''Output Length (bits)'' T_number False)\<lparr>defaultValue := Some (DefaultNumber 256), min' := Some 8, max' := Some 8192, placeholder := Some ''Output length in bits''\<rparr>]\<rparr>),
      (''blake2b512'',
       (algo ''BLAKE2b-512''
         ''Ultra-fast BLAKE2b-512 cryptographic hash with optional keying and personalization''
         ''BLAKE2'')
        \<lparr>nodeCryptoName := Some ''blake2b512'',
         outputLength := Some 64,
         parameters := Some
           [(param ''key'' ''Key (optional)'' T_text False)\<lparr>placeholder := Some ''Enter key for keyed hashing''\<rparr>,
            (param ''salt'' ''Salt (optional)'' T_text False)\<lparr>generateRandom := Some True, placeholder := Some ''Enter salt''\<rparr>,
            (param ''personalization'' ''Personalization (optional)'' T_text False)\<lparr>placeholder := Some ''Enter personalization string''\<rparr>,
            (param ''outputLength'' ''Output Length (bytes)'' T_number False)\<lparr>defaultValue := Some (DefaultNumber 64), min' := Some 1, max' := Some 64\<rparr>]\<rparr>),
      (''blake2s256'',
       (algo ''BLAKE2s-256''
         ''Optimized BLAKE2s-256 hash for 32-bit platforms with excellent performance and security''
         ''BLAKE2'')
        \<lparr>nodeCryptoName := Some ''blake2s256'',
         outputLength := Some 32,
         parameters := Some
           [(param ''key'' ''Key (optional)'' T_text False)\<lparr>placeholder := Some ''Enter key for keyed hashing''\<rparr>,
            (param ''salt'' ''Salt (optional)'' T_text False)\<lparr>generateRandom := Some True, placeholder := Some ''Enter salt''\<rparr>,
            (param ''personalization'' ''Personalization (optional)'' T_text False)\<lparr>placeholder := Some ''Enter personalization string''\<rparr>,
            (param ''outputLength'' ''Output Length (bytes)'' T_number False)\<lparr>defaultValue := Some (DefaultNumber 32), min' := Some 1, max' := Some 32\<rparr>]\<rparr>),
      (''blake1-224'',
       (algo ''BLAKE-224''
         ''Legacy BLAKE-224 hash - predecessor to BLAKE2, use BLAKE2b or BLAKE3 for new applications''
         ''Cryptographic'')
        \<lparr>outputLength := Some 28,
         legacy := Some True\<rparr>),
      (''blake1-256'',
       (algo ''BLAKE-256''
         ''Legacy BLAKE-256 hash - original SHA-3 finalist, prefer BLAKE2s or BLAKE3 for modern use''
         ''Cryptographic'')
        \<lparr>outputLength := Some 32,
         legacy := Some True\<rparr>),
      (''blake1-384'',
       (algo ''BLAKE-384''
         ''Legacy BLAKE-384 hash - older standard, upgrade to BLAKE2b or BLAKE3 for better performance''
         ''Cryptographic'')
        \<lparr>outputLength := Some 48,
         legacy := Some True\<rparr>),
      (''blake1-512'',
       (algo ''BLAKE-512''
         ''Legacy BLAKE-512 hash - SHA-3 finalist, replaced by faster BLAKE2b and BLAKE3 algorithms''
         ''Cryptographic'')
        \<lparr>outputLength := Some 64,
         legacy := Some True\<rparr>),
      (''murmurhash'',
       (algo ''MurmurHash''
         ''Popular MurmurHash algorithm - fast non-cryptographic hash for hash tables and cache keys''
         ''Non-cryptographic'')
        \<lparr>outputLength := Some 4\<rparr>),
      (''djb2'',
       (algo ''DJB2''
         ''Classic djb2 hash by Daniel Bernstein - simple and fast for basic hash table applications''
         ''Non-cryptographic'')
        \<lparr>outputLength := Some 4\<rparr>),
      (''sdbm'',
       (algo ''SDBM''
         ''SDBM hash function - reliable non-cryptographic hash for general-purpose data structures''
         ''Non-cryptographic'')
        \<lparr>outputLength := Some 4\<rparr>),
      (''fnv-1'',
       (algo ''FNV-1''
         ''Classic FNV-1 hash - simple, fast non-cryptographic hash for general-purpose applications''
         ''Non-cryptographic'')
        \<lparr>outputLength := Some 4\<rparr>),
      (''fnv-1a'',
       (algo ''FNV-1a''
         ''Improved FNV-1a hash - better avalanche effect for hash tables and data deduplication''
         ''Non-cryptographic'')
        \<lparr>outputLength := Some 4\<rparr>),
      (''crc-32'',
       (algo ''CRC-32''
         ''Standard CRC-32 checksum for ZIP files and Ethernet - detects accidental data corruption''
         ''Checksum'')
        \<lparr>outputLength := Some 4\<rparr>),
      (''adler32'',
       (algo ''Adler-32''
         ''Fast Adler-32 checksum used in zlib compression - optimized for speed over accuracy''
         ''Checksum'')
        \<lparr>outputLength := Some 4\<rparr>),
      (''crc-16'',
       (algo ''CRC-16''
         ''Cyclic redundancy check (16-bit)''
         ''Checksum'')
        \<lparr>outputLength := Some 2\<rparr>),
      (''crc-8'',
       (algo ''CRC-8''
         ''Cyclic redundancy check (8-bit)''
         ''Checksum'')
        \<lparr>outputLength := Some 1\<rparr>),
      (''crc-64'',
       (algo ''CRC-64''
         ''Cyclic redundancy check (64-bit)''
         ''Checksum'')
        \<lparr>outputLength := Some 8\<rparr>),
      (''blake3'',
       (algo ''BLAKE3''
         ''Lightning-fast BLAKE3 cryptographic hash - 3x faster than BLAKE2 with parallel processing''
         ''Modern'')
        \<lparr>npmPackage := Some ''blake3'',
         outputLength := Some 32,
         parameters := Some
           [(param ''key'' ''Key (optional, for keyed hashing)'' T_text False)\<lparr>placeholder := Some ''Enter key for keyed BLAKE3''\<rparr>,
            (param ''outputLength'' ''Output Length (bytes)'' T_number False)\<lparr>defaultValue := Some (DefaultNumber 32), min' := Some 1, max' := Some 64\<rparr>]\<rparr>),
      (''cshake128'',
       (algo ''cSHAKE128''
         ''cSHAKE128 customizable XOF - domain-separated SHAKE128 for protocol customization and security''
         ''Modern'')
        \<lparr>outputLength := Some 32,
         parameters := Some
           [(param ''N'' ''Function Name (N)'' T_text False)\<lparr>placeholder := Some ''Function name for domain separation''\<rparr>,
            (param ''S'' ''Customization String (S)'' T_text False)\<lparr>placeholder := Some ''Customization string''\<rparr>,
            (param ''dkLen'' ''Output Length (bytes)'' T_number False)\<lparr>defaultValue := Some (DefaultNumber 32), min' := Some 1, max' := Some 256\<rparr>]\<rparr>),
      (''cshake256'',
       (algo ''cSHAKE256''
         ''cSHAKE256 customizable XOF - enhanced domain separation for cryptographic protocol design''
         ''Modern'')
        \<lparr>outputLength := Some 32,
         parameters := Some
           [(param ''N'' ''Function Name (N)'' T_text False)\<lparr>placeholder := Some ''Function name for domain separation''\<rparr>,
            (param ''S'' ''Customization String (S)'' T_text False)\<lparr>placeholder := Some ''Customization string''\<rparr>,
            (param ''dkLen'' ''Output Length (bytes)'' T_number False)\<lparr>defaultValue := Some (DefaultNumber 32), min' := Some 1, max' := Some 512\<rparr>]\<rparr>),
      (''turboshake128'',
       (algo ''TurboSHAKE128''
         ''TurboSHAKE128 with domain separation - optimized XOF for high-performance cryptographic applications''
         ''Modern'')
        \<lparr>outputLength := Some 32,
         parameters := Some
           [(param ''D'' ''Domain Separation Byte (D)'' T_number False)\<lparr>defaultValue := Some (DefaultNumber 31), min' := Some 0, max' := Some 255, placeholder := Some ''Domain separation byte (0-255)''\<rparr>,
            (param ''dkLen'' ''Output Length (bytes)'' T_number False)\<lparr>defaultValue := Some (DefaultNumber 32), min' := Some 1, max' := Some 256\<rparr>]\<rparr>),
      (''turboshake256'',
       (algo ''TurboSHAKE256''
         ''TurboSHAKE256 with domain separation - high-security XOF for advanced cryptographic protocols''
         ''Modern'')
        \<lparr>outputLength := Some 32,
         parameters := Some
           [(param ''D'' ''Domain Separation Byte (D)'' T_number False)\<lparr>defaultValue := Some (DefaultNumber 31), min' := Some 0, max' := Some 255, placeholder := Some ''Domain separation byte (0-255)''\<rparr>,
            (param ''dkLen'' ''Output Length (bytes)'' T_number False)\<lparr>defaultValue := Some (DefaultNumber 32), min' := Some 1, max' := Some 512\<rparr>]\<rparr>),
      (''tuplehash256'',
       (algo ''TupleHash''
         ''TupleHash for ordered sequences - secure hashing of structured data with tuple preservation''
         ''Modern'')
        \<lparr>outputLength := Some 32,
         parameters := Some
           [(param ''S'' ''Customization String (S)'' T_text False)\<lparr>placeholder := Some ''Customization string''\<rparr>,
            (param ''dkLen'' ''Output Length (bytes)'' T_number False)\<lparr>defaultValue := Some (DefaultNumber 32), min' := Some 1, max' := Some 512\<rparr>]\<rparr>),
      (''parallelhash256'',
       (algo ''ParallelHash''
         ''ParallelHash for large data - high-performance parallel processing of massive datasets''
         ''Modern'')
        \<lparr>outputLength := Some 32,
         parameters := Some
           [(param ''B'' ''Block Size (B)'' T_number False)\<lparr>defaultValue := Some (DefaultNumber 8192), min' := Some 8, max' := Some 65536, placeholder := Some ''Block size in bytes''\<rparr>,
            (param ''S'' ''Customization String (S)'' T_text False)\<lparr>placeholder := Some ''Customization string''\<rparr>,
            (param ''dkLen'' ''Output Length (bytes)'' T_number False)\<lparr>defaultValue := Some (DefaultNumber 32), min' := Some 1, max' := Some 512\<rparr>]\<rparr>),
      (''kt128'',
       (algo ''KangarooTwelve (128-bit)''
         ''KangarooTwelve tree hashing (128-bit output)''
         ''Modern'')
        \<lparr>outputLength := Some 16,
         parameters := Some
           [(param ''dkLen'' ''Output Length (bytes)'' T_number False)\<lparr>defaultValue := Some (DefaultNumber 16), min' := Some 1, max' := Some 256\<rparr>]\<rparr>),
      (''kt256'',
       (algo ''KangarooTwelve (256-bit)''
         ''KangarooTwelve tree hashing (256-bit output)''
         ''Modern'')
        \<lparr>outputLength := Some 32,
         parameters := Some
           [(param ''dkLen'' ''Output Length (bytes)'' T_number False)\<lparr>defaultValue := Some (DefaultNumber 32), min' := Some 1, max' := Some 512\<rparr>]\<rparr>),
      (''simhash'',
       (algo ''SimHash''
         ''Locality-sensitive SimHash for document similarity - finds near-duplicate content efficiently''
         ''Similarity'')
        \<lparr>outputLength := Some 8,
         uiMode := Some UI_similarity,
         supportsComparison := Some True\<rparr>),
      (''minhash'',
       (algo ''MinHash''
         ''MinHash for Jaccard similarity estimation - used in duplicate detection and recommendation systems''
         ''Similarity'')
        \<lparr>outputLength := Some 8,
         uiMode := Some UI_similarity,
         supportsComparison := Some True\<rparr>),
      (''bbitminhash'',
       (algo ''b-bit MinHash''
         ''Compact b-bit MinHash - memory-efficient similarity detection for large-scale applications''
         ''Similarity'')
        \<lparr>outputLength := Some 8,
         uiMode := Some UI_similarity,
         supportsComparison := Some True\<rparr>),
      (''superminhash'',
       (algo ''SuperMinHash''
         ''Enhanced SuperMinHash (2017) - improved accuracy over traditional MinHash for similarity search''
         ''Similarity'')
        \<lparr>outputLength := Some 8,
         uiMode := Some UI_similarity,
         supportsComparison := Some True\<rparr>),
      (''nilsimsa'',
       (algo ''Nilsimsa''
         ''Nilsimsa hash for spam detection - specialized locality-sensitive hash for email and text analysis''
         ''Similarity'')
        \<lparr>outputLength := Some 32,
         uiMode := Some UI_similarity,
         supportsComparison := Some True\<rparr>),
      (''imatch'',
       (algo ''I-Match''
         ''I-Match lexicon-based similarity algorithm - customizable duplicate detection using word dictionaries''
         ''Similarity'')
        \<lparr>outputLength := Some 8,
         uiMode := Some UI_similarity,
         supportsComparison := Some True,
         parameters := Some
           [(param ''lexicon'' ''Lexicon (comma-separated words)'' T_textarea True)\<lparr>placeholder := Some ''Enter lexicon words separated by commas, e.g., word1, word2, word3'', defaultValue := Some (DefaultString ''test, words, for, demo'')\<rparr>,
            (param ''minIntersection'' ''Minimum Intersection'' T_number False)\<lparr>defaultValue := Some (DefaultNumber 3), min' := Some 0, max' := Some 100\<rparr>]\<rparr>),
      (''jenkins-one-at-a-time'',
       (algo ''Jenkins One-at-a-Time''
         (''Bob Jenkins'' @ [CHR 0x27] @ '' One-at-a-Time hash'')
         ''Non-cryptographic'')
        \<lparr>outputLength := Some 4\<rparr>),
      (''pearson'',
       (algo ''Pearson Hash''
         ''Pearson hashing using lookup table''
         ''Non-cryptographic'')
        \<lparr>outputLength := Some 1\<rparr>),
      (''bernstein'',
       (algo ''Bernstein Hash''
         (''Daniel J. Bernstein'' @ [CHR 0x27] @ ''s hash function'')
         ''Non-cryptographic'')
        \<lparr>outputLength := Some 4\<rparr>),
      (''elf-hash'',
       (algo ''ELF Hash''
         ''Executable and Linkable Format hash (PJW hash)''
         ''Non-cryptographic'')
        \<lparr>outputLength := Some 4\<rparr>),
      (''internet-checksum'',
       (algo ''Internet Checksum''
         ''RFC 1071 Internet checksum algorithm''
         ''Checksum'')
        \<lparr>outputLength := Some 2\<rparr>),
      (''fletcher-4'',
       (algo ''Fletcher-4''
         ''Compact Fletcher-4 checksum - position-dependent error detection for small data blocks''
         ''Checksum'')
        \<lparr>outputLength := Some 1\<rparr>),
      (''fletcher-8'',
       (algo ''Fletcher-8''
         ''Fletcher-8 checksum algorithm - efficient 8-bit error detection with burst error protection''
         ''Checksum'')
        \<lparr>outputLength := Some 1\<rparr>),
      (''fletcher-16'',
       (algo ''Fletcher-16''
         ''Standard Fletcher-16 checksum - widely used for network protocols and data integrity''
         ''Checksum'')
        \<lparr>outputLength := Some 2\<rparr>),
      (''fletcher-32'',
       (algo ''Fletcher-32''
         ''Enhanced Fletcher-32 checksum - stronger error detection for larger data sets and files''
         ''Checksum'')
        \<lparr>outputLength := Some 4\<rparr>),
      (''zobrist'',
       (algo ''Zobrist Hash''
         ''Zobrist hashing for board games''
         ''Non-cryptographic'')
        \<lparr>outputLength := Some 8\<rparr>),
      (''tabulation'',
       (algo ''Tabulation Hash''
         ''Tabulation hashing with high independence''
         ''Non-cryptographic'')
        \<lparr>outputLength := Some 8\<rparr>),
      (''argon2i'',
       (algo ''Argon2i''
         ''Advanced Argon2i password hashing - protects against side-channel attacks with memory hardness''
         ''Password'')
        \<lparr>npmPackage := Some ''argon2'',
         isSlow := Some True,
         outputLength := Some 32,
         uiMode := Some UI_password,
         parameters := Some
           [(param ''salt'' ''Salt'' T_text True)\<lparr>generateRandom := Some True, placeholder := Some ''Enter salt or generate random''\<rparr>,
            (param ''iterations'' ''Iterations'' T_number True)\<lparr>defaultValue := Some (DefaultNumber 3), min' := Some 1, max' := Some 100\<rparr>,
            (param ''memory'' ''Memory (KB)'' T_number True)\<lparr>defaultValue := Some (DefaultNumber 65536), min' := Some 1024\<rparr>,
            (param ''parallelism'' ''Parallelism'' T_number True)\<lparr>defaultValue := Some (DefaultNumber 4), min' := Some 1, max' := Some 16\<rparr>,
            (param ''keyLength'' ''Key Length (bytes)'' T_number False)\<lparr>defaultValue := Some (DefaultNumber 32), min' := Some 16, max' := Some 64\<rparr>]\<rparr>),
      (''argon2d'',
       (algo ''Argon2d''
         ''Memory-hard Argon2d password hashing - optimized for resistance to GPU cracking attacks''
         ''Password'')
        \<lparr>npmPackage := Some ''argon2'',
         isSlow := Some True,
         outputLength := Some 32,
         uiMode := Some UI_password,
         parameters := Some
           [(param ''salt'' ''Salt'' T_text True)\<lparr>generateRandom := Some True, placeholder := Some ''Enter salt or generate random''\<rparr>,
            (param ''iterations'' ''Iterations'' T_number True)\<lparr>defaultValue := Some (DefaultNumber 3), min' := Some 1, max' := Some 100\<rparr>,
            (param ''memory'' ''Memory (KB)'' T_number True)\<lparr>defaultValue := Some (DefaultNumber 65536), min' := Some 1024\<rparr>,
            (param ''parallelism'' ''Parallelism'' T_number True)\<lparr>defaultValue := Some (DefaultNumber 4), min' := Some 1, max' := Some 16\<rparr>,
            (param ''keyLength'' ''Key Length (bytes)'' T_number False)\<lparr>defaultValue := Some (DefaultNumber 32), min' := Some 16, max' := Some 64\<rparr>]\<rparr>),
      (''argon2id'',
       (algo ''Argon2id''
         ''Recommended Argon2id password hashing - hybrid approach for maximum security against all attacks''
         ''Password'')
        \<lparr>npmPackage := Some ''argon2'',
         isSlow := Some True,
         outputLength := Some 32,
         uiMode := Some UI_password,
         parameters := Some
           [(param ''salt'' ''Salt'' T_text True)\<lparr>generateRandom := Some True, placeholder := Some ''Enter salt or generate random''\<rparr>,
            (param ''iterations'' ''Iterations'' T_number True)\<lparr>defaultValue := Some (DefaultNumber 3), min' := Some 1, max' := Some 100\<rparr>,
            (param ''memory'' ''Memory (KB)'' T_number True)\<lparr>defaultValue := Some (DefaultNumber 65536), min' := Some 1024\<rparr>,
            (param ''parallelism'' ''Parallelism'' T_number True)\<lparr>defaultValue := Some (DefaultNumber 4), min' := Some 1, max' := Some 16\<rparr>,
            (param ''keyLength'' ''Key Length (bytes)'' T_number False)\<lparr>defaultValue := Some (DefaultNumber 32), min' := Some 16, max' := Some 64\<rparr>]\<rparr>),
      (''has160'',
       (algo ''HAS-160''
         ''Hash Algorithm Standard 160-bit''
         ''Cryptographic'')
        \<lparr>outputLength := Some 20,
         legacy := Some True\<rparr>),
      (''gost'',
       (algo ''GOST''
         ''Russian GOST R 34.11-2012 cryptographic hash - government standard for Russian Federation''
         ''Cryptographic'')
        \<lparr>npmPackage := Some ''gost-crypto'',
         outputLength := Some 32,
         legacy := Some True\<rparr>),
      (''streebog'',
       (algo ''Streebog''
         ''Russian Streebog hash function - modern Russian cryptographic standard for digital signatures''
         ''Cryptographic'')
        \<lparr>npmPackage := Some ''streebog'',
         outputLength := Some 32,
         legacy := Some True\<rparr>),
      (''luhn'',
       (algo ''Luhn Algorithm''
         ''Luhn algorithm - credit card validation checksum used worldwide for financial data integrity''
         ''Checksum'')
        \<lparr>outputLength := Some 1\<rparr>),
      (''verhoeff'',
       (algo ''Verhoeff Algorithm''
         ''Verhoeff algorithm - advanced decimal checksum with transposition error detection capabilities''
         ''Checksum'')
        \<lparr>outputLength := Some 1\<rparr>),
      (''damm'',
       (algo ''Damm Algorithm''
         ''Damm algorithm - quasigroup-based checksum providing single-digit error correction''
         ''Checksum'')
        \<lparr>outputLength := Some 1\<rparr>),
      (''rs-hash'',
       (algo ''RS Hash''
         (''Robert Sedgwick'' @ [CHR 0x27] @ ''s hash function - classic algorithm from '' @ [CHR 0x27] @ ''Algorithms in C'' @ [CHR 0x27] @ '' textbook'')
         ''Non-cryptographic'')
        \<lparr>outputLength := Some 4\<rparr>),
      (''js-hash'',
       (algo ''JS Hash''
         (''Justin Sobel'' @ [CHR 0x27] @ ''s hash function - simple multiplicative hash for basic applications'')
         ''Non-cryptographic'')
        \<lparr>outputLength := Some 4\<rparr>),
      (''bkdr-hash'',
       (algo ''BKDR Hash''
         (''BKDR hash by Kernighan and Ritchie - classic string hashing from '' @ [CHR 0x27] @ ''The C Programming Language'' @ [CHR 0x27])
         ''Non-cryptographic'')
        \<lparr>outputLength := Some 4\<rparr>),
      (''dek-hash'',
       (algo ''DEK Hash''
         (''Donald Knuth'' @ [CHR 0x27] @ ''s hash function - mathematical approach from '' @ [CHR 0x27] @ ''The Art of Computer Programming'' @ [CHR 0x27])
         ''Non-cryptographic'')
        \<lparr>outputLength := Some 4\<rparr>),
      (''ap-hash'',
       (algo ''AP Hash''
         (''Arash Partow'' @ [CHR 0x27] @ ''s hash function - optimized for speed and distribution in hash tables'')
         ''Non-cryptographic'')
        \<lparr>outputLength := Some 4\<rparr>),
      (''murmurhash128'',
       (algo ''MurmurHash128''
         ''High-performance MurmurHash128 for 128-bit applications - excellent for large hash tables''
         ''Non-cryptographic'')
        \<lparr>outputLength := Some 16\<rparr>),
      (''fnv-1-64'',
       (algo ''FNV-1 (64-bit)''
         ''64-bit FNV-1 hash for modern systems - fast and reliable for 64-bit architectures''
         ''Non-cryptographic'')
        \<lparr>outputLength := Some 8\<rparr>),
      (''fnv-1a-64'',
       (algo ''FNV-1a (64-bit)''
         ''64-bit FNV-1a hash - optimized avalanche properties for 64-bit computing platforms''
         ''Non-cryptographic'')
        \<lparr>outputLength := Some 8\<rparr>),
      (''xxhash32'',
       (algo ''xxHash32''
         ''Ultra-fast xxHash32 for high-performance applications - faster than CRC32 with better distribution''
         ''Non-cryptographic'')
        \<lparr>npmPackage := Some ''xxhash-wasm'',
         outputLength := Some 4\<rparr>),
      (''xxhash64'',
       (algo ''xxHash64''
         ''Industry-standard xxHash64 for databases and file systems - blazing fast with excellent collision resistance''
         ''Non-cryptographic'')
        \<lparr>npmPackage := Some ''xxhash-wasm'',
         outputLength := Some 8\<rparr>),
      (''xxhash128'',
       (algo ''xxHash128''
         ''High-performance xxHash128 for large-scale systems - fastest 128-bit hash for big data applications''
         ''Non-cryptographic'')
        \<lparr>npmPackage := Some ''xxhash-wasm'',
         outputLength := Some 16\<rparr>),
      (''cityhash'',
       (algo ''CityHash''
         (''Google'' @ [CHR 0x27] @ ''s CityHash - optimized for modern CPUs with SIMD instructions for maximum speed'')
         ''Non-cryptographic'')
        \<lparr>npmPackage := Some ''cityhash'',
         outputLength := Some 8\<rparr>),
      (''farmhash'',
       (algo ''FarmHash''
         (''Google'' @ [CHR 0x27] @ ''s FarmHash - successor to CityHash with improved performance across all platforms'')
         ''Non-cryptographic'')
        \<lparr>npmPackage := Some ''farmhash'',
         outputLength := Some 8\<rparr>),
      (''metrohash'',
       (algo ''MetroHash''
         ''MetroHash - extremely fast hash function designed for high-throughput applications''
         ''Non-cryptographic'')
        \<lparr>npmPackage := Some ''metrohash'',
         outputLength := Some 8\<rparr>),
      (''t1ha'',
       (algo ''T1HA''
         ''Fast Positive Hash (T1HA) - one of the fastest non-cryptographic hashes available''
         ''Non-cryptographic'')
        \<lparr>npmPackage := Some ''t1ha'',
         outputLength := Some 8\<rparr>),
      (''highwayhash'',
       (algo ''HighwayHash''
         (''Google'' @ [CHR 0x27] @ ''s HighwayHash - cryptographic hash optimized for speed while maintaining security guarantees'')
         ''Modern'')
        \<lparr>npmPackage := Some ''highwayhash'',
         outputLength := Some 8\<rparr>),
      (''siphash'',
       (algo ''SipHash''
         ''SipHash - cryptographically secure pseudorandom function designed to prevent hash flooding attacks''
         ''Modern'')
        \<lparr>npmPackage := Some ''siphash'',
         outputLength := Some 8\<rparr>),
      (''poly1305'',
       (algo ''Poly1305''
         ''Poly1305 one-time authenticator - fast message authentication used in TLS and cryptography protocols''
         ''Modern'')
        \<lparr>npmPackage := Some ''poly1305-js'',
         outputLength := Some 16\<rparr>),
      (''cmac'',
       (algo ''CMAC''
         ''Cipher-based Message Authentication Code - standardized MAC using block ciphers like AES''
         ''Modern'')
        \<lparr>npmPackage := Some ''crypto-js'',
         outputLength := Some 16\<rparr>),
      (''scrypt'',
       (algo ''Scrypt''
         ''Memory-hard Scrypt password hashing - protects against hardware-based cracking attacks''
         ''Password'')
        \<lparr>npmPackage := Some ''scrypt-js'',
         isSlow := Some True,
         outputLength := Some 32,
         uiMode := Some UI_password,
         parameters := Some
           [(param ''salt'' ''Salt'' T_text True)\<lparr>generateRandom := Some True, placeholder := Some ''Enter salt or generate random''\<rparr>,
            (param ''N'' ''N (CPU/Memory cost)'' T_number True)\<lparr>defaultValue := Some (DefaultNumber 16384), min' := Some 1024\<rparr>,
            (param ''r'' ''r (Block size)'' T_number True)\<lparr>defaultValue := Some (DefaultNumber 8), min' := Some 1, max' := Some 32\<rparr>,
            (param ''p'' ''p (Parallelism)'' T_number True)\<lparr>defaultValue := Some (DefaultNumber 1), min' := Some 1, max' := Some 16\<rparr>,
            (param ''dkLen'' ''Key Length (bytes)'' T_number False)\<lparr>defaultValue := Some (DefaultNumber 64), min' := Some 16, max' := Some 128\<rparr>]\<rparr>),
      (''pbkdf2'',
       (algo ''PBKDF2''
         ''Standard PBKDF2 password hashing - NIST-approved key derivation for secure password storage''
         ''Password'')
        \<lparr>isSlow := Some True,
         outputLength := Some 32,
         uiMode := Some UI_password,
         parameters := Some
           [(param ''salt'' ''Salt'' T_text True)\<lparr>generateRandom := Some True, placeholder := Some ''Enter salt or generate random''\<rparr>,
            (param ''iterations'' ''Iterations'' T_number True)\<lparr>defaultValue := Some (DefaultNumber 10000), min' := Some 1000, max' := Some 1000000\<rparr>,
            (param ''keyLength'' ''Key Length (bytes)'' T_number False)\<lparr>defaultValue := Some (DefaultNumber 32), min' := Some 16, max' := Some 64\<rparr>]\<rparr>),
      (''hmac'',
       (algo ''HMAC''
         ''Cryptographic HMAC for message authentication - protects integrity and authenticity of data''
         ''Modern'')
        \<lparr>outputLength := Some 32,
         uiMode := Some UI_hmac,
         parameters := Some
           [(param ''key'' ''Key'' T_text True)\<lparr>placeholder := Some ''Enter HMAC key''\<rparr>]\<rparr>),
      (''hkdf'',
       (algo ''HKDF''
         ''Secure HKDF key derivation - extracts strong keys from weak input material using HMAC''
         ''Modern'')
        \<lparr>outputLength := Some 32,
         uiMode := Some UI_hkdf,
         parameters := Some
           [(param ''ikm'' ''Input Key Material (IKM)'' T_text True)\<lparr>placeholder := Some ''Enter IKM''\<rparr>,
            (param ''salt'' ''Salt'' T_text True)\<lparr>generateRandom := Some True\<rparr>,
            (param ''info'' ''Info'' T_text False)\<lparr>placeholder := Some ''Context/application info''\<rparr>,
            (param ''keyLength'' ''Key Length (bytes)'' T_number False)\<lparr>defaultValue := Some (DefaultNumber 32), min' := Some 16, max' := Some 64\<rparr>]\<rparr>),
      (''cubehash'',
       (algo ''CubeHash''
         ''CubeHash cryptographic hash - SHA-3 finalist known for simple design and security margins''
         ''Modern'')
        \<lparr>outputLength := Some 32\<rparr>),
      (''echo'',
       (algo ''ECHO''
         ''ECHO cryptographic hash - wide-pipe design for enhanced security against length extension attacks''
         ''Modern'')
        \<lparr>outputLength := Some 32\<rparr>),
      (''skein'',
       (algo ''Skein''
         ''Skein cryptographic hash - highly optimized for 64-bit platforms with tweakable parameters''
         ''Modern'')
        \<lparr>outputLength := Some 32\<rparr>),
      (''blue-midnight-wish'',
       (algo ''Blue Midnight Wish''
         ''Blue Midnight Wish hash - SHA-3 finalist with unique double-pipe construction for security''
         ''Modern'')
        \<lparr>outputLength := Some 32\<rparr>),
      ((''gr'' @ [CHR 0xF8] @ ''stl''),
       (algo (''Gr'' @ [CHR 0xF8] @ ''stl'')
         (''Gr'' @ [CHR 0xF8] @ ''stl cryptographic hash - AES-based design providing provable security and high performance'')
         ''Modern'')
        \<lparr>outputLength := Some 32\<rparr>),
      (''md2'',
       (algo ''MD2''
         ''Obsolete MD2 hash - cryptographically broken, avoid for any security-critical applications''
         ''Cryptographic'')
        \<lparr>outputLength := Some 16,
         legacy := Some True\<rparr>),
      (''md4'',
       (algo ''MD4''
         ''Deprecated MD4 hash - vulnerable to collision attacks, use SHA-256 or stronger alternatives''
         ''Cryptographic'')
        \<lparr>outputLength := Some 16,
         legacy := Some True\<rparr>)]"

text \<open>
  \<open>RAW_HASH_ALGORITHMS_literal\<close> above lists the property definitions of the object
  literal in the order in which the source writes them; the object is what defining
  them one after the other gives.
\<close>

definition RAW_HASH_ALGORITHMS :: "HashAlgorithm obj" where
  "RAW_HASH_ALGORITHMS = objLiteral RAW_HASH_ALGORITHMS_literal"

text \<open>\<open>demo: !("nodeCryptoName" in cfg)\<close>\<close>

definition HASH_ALGORITHMS :: "HashAlgorithm obj" where
  "HASH_ALGORITHMS =
     fromEntries (map (\<lambda>(i, cfg). (i, cfg\<lparr>demo := Some (nodeCryptoName cfg = None)\<rparr>))
                      RAW_HASH_ALGORITHMS)"

subsection \<open>\<open>getAlgorithmsByCategory\<close>\<close>

text \<open>
  One round of the \<open>forEach\<close>. \<open>HASH_ALGORITHMS[algo]\<close> is an own property, \<open>algo\<close> being
  one of the keys. \<open>!result[category]\<close> is true only where the read is \<open>undefined\<close>: an
  array is truthy, and so is an inherited member, on which \<open>push\<close> is not a function
  and the call throws a \<open>TypeError\<close>.
\<close>

definition categoryStep ::
  "thrown + string list obj \<Rightarrow> string \<Rightarrow> thrown + string list obj" where
  "categoryStep acc a =
     (case acc of
        Inl e \<Rightarrow> Inl e
      | Inr result \<Rightarrow>
          (case map_of HASH_ALGORITHMS a of
             None \<Rightarrow> Inl (Thrown ''TypeError'')
           | Some cfg \<Rightarrow>
               (case objGet result (category cfg) of
                  Undefined \<Rightarrow> Inr (objSet result (category cfg) [a])
                | Own ids \<Rightarrow> Inr (objSet result (category cfg) (ids @ [a]))
                | Inherited m \<Rightarrow> Inl (Thrown ''TypeError''))))"

definition getAlgorithmsByCategory :: "thrown + string list obj" where
  "getAlgorithmsByCategory = foldl categoryStep (Inr []) (keys HASH_ALGORITHMS)"

text \<open>
  \<open>ALL_CATEGORY_TITLES\<close> is computed when the module is loaded; a throw there would leave
  the module without any of its exports.
\<close>

definition ALL_CATEGORY_TITLES :: "string list" where
  "ALL_CATEGORY_TITLES = (case getAlgorithmsByCategory of Inl e \<Rightarrow> [] | Inr result \<Rightarrow> keys result)"

subsection \<open>\<open>hashCategoryNameToSlug\<close>\<close>

text \<open>
  \<open>toLowerCase\<close> on the code units below 256: the letters A to Z and the capital letters
  of Latin-1 (192 to 222 without the multiplication sign 215) move up by 32.
\<close>

definition toLowerChar :: "char \<Rightarrow> char" where
  "toLowerChar c =
     (let n = (of_char c :: nat) in
      if (65 \<le> n \<and> n \<le> 90) \<or> (192 \<le> n \<and> n \<le> 222 \<and> n \<noteq> 215) then char_of (n + 32) else c)"

definition toLowerCase :: "string \<Rightarrow> string" where
  "toLowerCase s = map toLowerChar s"

text \<open>The character class \<open>[a-z0-9\s-]\<close>; \<open>\s\<close> is the white space of \<open>isWhiteSpace\<close>.\<close>

definition keptChar :: "char \<Rightarrow> bool" where
  "keptChar c =
     (let n = (of_char c :: nat) in
      (97 \<le> n \<and> n \<le> 122) \<or> (48 \<le> n \<and> n \<le> 57) \<or> isWhiteSpace c \<or> c = CHR ''-'')"

text \<open>\<open>replace(/p+/g, "-")\<close>: every maximal run of characters of the class \<open>p\<close> becomes one hyphen.\<close>

function replaceRuns :: "(char \<Rightarrow> bool) \<Rightarrow> string \<Rightarrow> string" where
  "replaceRuns p [] = []"
| "replaceRuns p (c # cs) =
     (if p c then CHR ''-'' # replaceRuns p (dropWhile p cs) else c # replaceRuns p cs)"
  by pat_completeness auto
termination
  by (relation "measure (\<lambda>(p, s). length s)") (auto simp: length_dropWhile_le less_Suc_eq_le)

definition trim :: "string \<Rightarrow> string" where
  "trim s = rev (dropWhile isWhiteSpace (rev (dropWhile isWhiteSpace s)))"

definition hashCategoryNameToSlug :: "string \<Rightarrow> string" where
  "hashCategoryNameToSlug categoryName =
     trim (replaceRuns (\<lambda>c. c = CHR ''-'')
            (replaceRuns isWhiteSpace (filter keptChar (toLowerCase categoryName))))"

subsection \<open>\<open>hashCategorySlugToName\<close>\<close>

text \<open>
  The value that \<open>slugToCategoryMap[slug] || slug\<close> evaluates to: a string, or a member
  of \<open>Object.prototype\<close>, which the declared result type \<open>string\<close> does not describe.
\<close>

datatype slug_result = Str string | ProtoMember string

text \<open>
  An assignment \<open>slugToCategoryMap[k] = category\<close> creates or overwrites the own property
  \<open>k\<close>, except for \<open>k = "__proto__"\<close>, where it runs the setter of \<open>Object.prototype\<close>,
  which ignores a string.
\<close>

definition slugToCategoryMap :: "string obj" where
  "slugToCategoryMap =
     foldl (\<lambda>m category.
              let k = hashCategoryNameToSlug category
              in if k = ''__proto__'' then m else objSet m k category)
           [] ALL_CATEGORY_TITLES"

definition hashCategorySlugToName :: "string \<Rightarrow> slug_result" where
  "hashCategorySlugToName slug =
     (case objGet slugToCategoryMap slug of
        Own v \<Rightarrow> Str (if v = [] then slug else v)
      | Inherited m \<Rightarrow> ProtoMember m
      | Undefined \<Rightarrow> Str slug)"


section \<open>Tables and functions used in the proofs\<close>

text \<open>
  An SDK whose four functions return the number \<open>s\<close> whatever they are given. The worked
  examples instantiate the SDK parameter with it.
\<close>

definition constSdk :: "number \<Rightarrow> sdk" where
  "constSdk s =
     \<lparr>simhashHammingDistance = (\<lambda>a b. Inr s), simhashSimilarity = (\<lambda>a b. Inr s),
      minhashJaccard = (\<lambda>a b. Inr s), nilsimsaCompare = (\<lambda>a b. Inr s)\<rparr>"

text \<open>
  The case labels of \<open>compareSimilarityHashes\<close> that have a metric of their own. Every
  other algorithm id, \<open>imatch\<close> among them, is answered by \<open>hammingDistance\<close>.
\<close>

definition bespoke :: "string set" where
  "bespoke = {''simhash'', ''minhash'', ''bbitminhash'', ''superminhash'', ''nilsimsa''}"

text \<open>The string with every character that is not a hexadecimal digit replaced by \<open>0\<close>.\<close>

definition zeroNonHex :: "string \<Rightarrow> string" where
  "zeroNonHex hex = map (\<lambda>c. if hexDigit c = None then CHR ''0'' else c) hex"

text \<open>
  The keys of the catalog and, for each key, the fields \<open>category\<close>, \<open>uiMode\<close> and
  \<open>supportsComparison\<close>, in the order of the literal. Lemma \<open>literal_summary\<close> shows that
  the table is the projection of \<open>RAW_HASH_ALGORITHMS_literal\<close>.
\<close>

definition catalogSummary ::
  "(string \<times> string \<times> AlgorithmUIMode option \<times> bool option) list" where
  "catalogSummary =
     [(''md5'', ''Cryptographic'', None, None), (''sha1'', ''Cryptographic'', None, None),
      (''sha224'', ''SHA-2'', None, None), (''sha256'', ''SHA-2'', None, None),
      (''sha384'', ''SHA-2'', None, None), (''sha512'', ''SHA-2'', None, None),
      (''sha512-224'', ''SHA-2'', None, None), (''sha512-256'', ''SHA-2'', None, None),
      (''ripemd160'', ''Cryptographic'', None, None), (''sha3-224'', ''SHA-3'', None, None),
      (''sha3-256'', ''SHA-3'', None, None), (''sha3-384'', ''SHA-3'', None, None),
      (''sha3-512'', ''SHA-3'', None, None), (''keccak-224'', ''Cryptographic'', None, None),
      (''keccak-256'', ''Cryptographic'', None, None),
      (''keccak-384'', ''Cryptographic'', None, None),
      (''keccak-512'', ''Cryptographic'', None, None), (''shake128'', ''SHAKE'', None, None),
      (''shake256'', ''SHAKE'', None, None), (''blake2b512'', ''BLAKE2'', None, None),
      (''blake2s256'', ''BLAKE2'', None, None),
      (''blake1-224'', ''Cryptographic'', None, None),
      (''blake1-256'', ''Cryptographic'', None, None),
      (''blake1-384'', ''Cryptographic'', None, None),
      (''blake1-512'', ''Cryptographic'', None, None),
      (''murmurhash'', ''Non-cryptographic'', None, None),
      (''djb2'', ''Non-cryptographic'', None, None),
      (''sdbm'', ''Non-cryptographic'', None, None),
      (''fnv-1'', ''Non-cryptographic'', None, None),
      (''fnv-1a'', ''Non-cryptographic'', None, None), (''crc-32'', ''Checksum'', None, None),
      (''adler32'', ''Checksum'', None, None), (''crc-16'', ''Checksum'', None, None),
      (''crc-8'', ''Checksum'', None, None), (''crc-64'', ''Checksum'', None, None),
      (''blake3'', ''Modern'', None, None), (''cshake128'', ''Modern'', None, None),
      (''cshake256'', ''Modern'', None, None), (''turboshake128'', ''Modern'', None, None),
      (''turboshake256'', ''Modern'', None, None), (''tuplehash256'', ''Modern'', None, None),
      (''parallelhash256'', ''Modern'', None, None), (''kt128'', ''Modern'', None, None),
      (''kt256'', ''Modern'', None, None),
      (''simhash'', ''Similarity'', Some UI_similarity, Some True),
      (''minhash'', ''Similarity'', Some UI_similarity, Some True),
      (''bbitminhash'', ''Similarity'', Some UI_similarity, Some True),
      (''superminhash'', ''Similarity'', Some UI_similarity, Some True),
      (''nilsimsa'', ''Similarity'', Some UI_similarity, Some True),
      (''imatch'', ''Similarity'', Some UI_similarity, Some True),
      (''jenkins-one-at-a-time'', ''Non-cryptographic'', None, None),
      (''pearson'', ''Non-cryptographic'', None, None),
      (''bernstein'', ''Non-cryptographic'', None, None),
      (''elf-hash'', ''Non-cryptographic'', None, None),
      (''internet-checksum'', ''Checksum'', None, None),
      (''fletcher-4'', ''Checksum'', None, None), (''fletcher-8'', ''Checksum'', None, None),
      (''fletcher-16'', ''Checksum'', None, None), (''fletcher-32'', ''Checksum'', None, None),
      (''zobrist'', ''Non-cryptographic'', None, None),
      (''tabulation'', ''Non-cryptographic'', None, None),
      (''argon2i'', ''Password'', Some UI_password, None),
      (''argon2d'', ''Password'', Some UI_password, None),
      (''argon2id'', ''Password'', Some UI_password, None),
      (''has160'', ''Cryptographic'', None, None), (''gost'', ''Cryptographic'', None, None),
      (''streebog'', ''Cryptographic'', None, None), (''luhn'', ''Checksum'', None, None),
      (''verhoeff'', ''Checksum'', None, None), (''damm'', ''Checksum'', None, None),
      (''rs-hash'', ''Non-cryptographic'', None, None),
      (''js-hash'', ''Non-cryptographic'', None, None),
      (''bkdr-hash'', ''Non-cryptographic'', None, None),
      (''dek-hash'', ''Non-cryptographic'', None, None),
      (''ap-hash'', ''Non-cryptographic'', None, None),
      (''murmurhash128'', ''Non-cryptographic'', None, None),
      (''fnv-1-64'', ''Non-cryptographic'', None, None),
      (''fnv-1a-64'', ''Non-cryptographic'', None, None),
      (''xxhash32'', ''Non-cryptographic'', None, None),
      (''xxhash64'', ''Non-cryptographic'', None, None),
      (''xxhash128'', ''Non-cryptographic'', None, None),
      (''cityhash'', ''Non-cryptographic'', None, None),
      (''farmhash'', ''Non-cryptographic'', None, None),
      (''metrohash'', ''Non-cryptographic'', None, None),
      (''t1ha'', ''Non-cryptographic'', None, None), (''highwayhash'', ''Modern'', None, None),
      (''siphash'', ''Modern'', None, None), (''poly1305'', ''Modern'', None, None),
      (''cmac'', ''Modern'', None, None), (''scrypt'', ''Password'', Some UI_password, None),
      (''pbkdf2'', ''Password'', Some UI_password, None),
      (''hmac'', ''Modern'', Some UI_hmac, None), (''hkdf'', ''Modern'', Some UI_hkdf, None),
      (''cubehash'', ''Modern'', None, None), (''echo'', ''Modern'', None, None),
      (''skein'', ''Modern'', None, None), (''blue-midnight-wish'', ''Modern'', None, None),
      ((''gr'' @ [CHR 0xF8] @ ''stl''), ''Modern'', None, None),
      (''md2'', ''Cryptographic'', None, None), (''md4'', ''Cryptographic'', None, None)]"

text \<open>
  A round of \<open>getAlgorithmsByCategory\<close> on a key paired with its category, without
  the read of \<open>HASH_ALGORITHMS\<close>.
\<close>

definition groupStep ::
  "thrown + string list obj \<Rightarrow> string \<times> string \<Rightarrow> thrown + string list obj" where
  "groupStep acc p =
     (case acc of
        Inl e \<Rightarrow> Inl e
      | Inr result \<Rightarrow>
          (case objGet result (snd p) of
             Undefined \<Rightarrow> Inr (objSet result (snd p) [fst p])
           | Own ids \<Rightarrow> Inr (objSet result (snd p) (ids @ [fst p]))
           | Inherited m \<Rightarrow> Inl (Thrown ''TypeError'')))"

text \<open>What \<open>HASH_ALGORITHMS\<close> adds to an entry of the literal.\<close>

definition withDemo :: "string \<times> HashAlgorithm \<Rightarrow> string \<times> HashAlgorithm" where
  "withDemo = (\<lambda>(i, cfg). (i, cfg\<lparr>demo := Some (nodeCryptoName cfg = None)\<rparr>))"


section \<open>The generic metric\<close>

lemma hammingLoop_commute:
  "length hex1 = length hex2 \<Longrightarrow> hammingLoop hex1 hex2 i acc = hammingLoop hex2 hex1 i acc"
proof (induction hex1 hex2 i acc rule: hammingLoop.induct)
  case (1 hex1 hex2 i acc)
  have nb: "nibbleBits hex1 hex2 i = nibbleBits hex2 hex1 i"
    by (simp add: nibbleBits_def Let_def xor.commute)
  show ?case
  proof (cases "i < length hex1")
    case True
    then show ?thesis
      using "1.IH" "1.prems" nb
      by (simp add: hammingLoop.simps [of hex1 hex2 i acc] hammingLoop.simps [of hex2 hex1 i acc])
  next
    case False
    then show ?thesis
      using "1.prems"
      by (simp add: hammingLoop.simps [of hex1 hex2 i acc] hammingLoop.simps [of hex2 hex1 i acc])
  qed
qed

lemma fallback_result:
  "algorithm \<notin> bespoke \<Longrightarrow>
   compareSimilarityHashes k algorithm hash1 hash2 =
     Inr (Some \<lparr>distance = Some (of_int (hammingDistance hash1 hash2)), similarity = None\<rparr>)"
  by (simp add: compareSimilarityHashes_def bespoke_def)

text \<open>On a single character \<open>parseInt\<close> reads exactly the hexadecimal digits.\<close>

lemma hexDigit_not_space: "hexDigit c = Some d \<Longrightarrow> \<not> isWhiteSpace c"
  by (auto simp: hexDigit_def isWhiteSpace_def Let_def split: if_splits)

lemma hexDigit_not_sign: "hexDigit c = Some d \<Longrightarrow> c \<noteq> CHR ''-'' \<and> c \<noteq> CHR ''+''"
  by (auto simp: hexDigit_def Let_def split: if_splits)

lemma parseInt16_single: "parseInt16 [c] = hexDigit c"
proof (cases "hexDigit c")
  case None
  then show ?thesis
    by (auto simp: parseInt16_def Let_def)
next
  case (Some d)
  with hexDigit_not_space [OF Some] hexDigit_not_sign [OF Some] show ?thesis
    by (simp add: parseInt16_def Let_def)
qed

lemma hexDigit_zero: "hexDigit CHR ''0'' = Some 0"
  by (simp add: hexDigit_def)

lemma toInt32_zeroNonHex:
  "toInt32 (parseInt16 [if hexDigit c = None then CHR ''0'' else c]) = toInt32 (parseInt16 [c])"
  by (simp add: parseInt16_single hexDigit_zero toInt32_def)

lemma nibbleBits_zeroNonHex:
  assumes "i < length hex1" "length hex1 = length hex2"
  shows "nibbleBits (zeroNonHex hex1) (zeroNonHex hex2) i = nibbleBits hex1 hex2 i"
  using assms
  by (simp add: nibbleBits_def charOrZero_def zeroNonHex_def toInt32_zeroNonHex Let_def)

lemma hammingLoop_zeroNonHex:
  "length hex1 = length hex2 \<Longrightarrow>
   hammingLoop (zeroNonHex hex1) (zeroNonHex hex2) i acc = hammingLoop hex1 hex2 i acc"
proof (induction hex1 hex2 i acc rule: hammingLoop.induct)
  case (1 hex1 hex2 i acc)
  have len: "length (zeroNonHex hex1) = length hex1"
    by (simp add: zeroNonHex_def)
  show ?case
  proof (cases "i < length hex1")
    case True
    then show ?thesis
      using "1.IH" "1.prems" nibbleBits_zeroNonHex [OF True "1.prems"] len
      by (simp add: hammingLoop.simps [of hex1 hex2 i acc]
          hammingLoop.simps [of "zeroNonHex hex1" "zeroNonHex hex2" i acc])
  next
    case False
    then show ?thesis
      using len
      by (simp add: hammingLoop.simps [of hex1 hex2 i acc]
          hammingLoop.simps [of "zeroNonHex hex1" "zeroNonHex hex2" i acc])
  qed
qed

lemma hammingDistance_zeroNonHex:
  "hammingDistance (zeroNonHex hex1) (zeroNonHex hex2) = hammingDistance hex1 hex2"
  by (simp add: hammingDistance_def hammingLoop_zeroNonHex) (simp add: zeroNonHex_def)

lemmas hamming_eval = hammingDistance_def hammingLoop.simps nibbleBits_def charOrZero_def
  parseInt16_def hexDigit_def toInt32_def isWhiteSpace_def Let_def

section \<open>Properties of the comparator\<close>

text \<open>
  C1, as amended. The claim asks for an explicit \<open>LengthMismatch\<close> error and no sentinel
  when the generic metric is given two strings of unequal length. The source returns
  the sentinel: \<open>hammingDistance\<close> starts with the guard
  \<open>if (hex1.length !== hex2.length) return -1\<close>. What holds is that for every algorithm
  id answered by the generic metric (\<open>imatch\<close> and every id without a case label) and
  all strings of unequal length, the promise resolves to the object \<open>{ distance: -1 }\<close>,
  without the field \<open>similarity\<close>, and nothing is thrown.
\<close>

theorem fallback_length_mismatch_sentinel:
  "algorithm \<notin> bespoke \<Longrightarrow> length hash1 \<noteq> length hash2 \<Longrightarrow>
   compareSimilarityHashes k algorithm hash1 hash2
     = Inr (Some \<lparr>distance = Some (- 1), similarity = None\<rparr>)"
  by (simp add: fallback_result hammingDistance_def)

theorem fallback_length_mismatch_sentinel_witness:
  "''tlsh'' \<notin> bespoke \<and> length ''0f'' \<noteq> length ''0f3'' \<and>
   compareSimilarityHashes (constSdk 0) ''tlsh'' ''0f'' ''0f3''
     = Inr (Some \<lparr>distance = Some (- 1), similarity = None\<rparr>)"
  using fallback_length_mismatch_sentinel [of "''tlsh''" "''0f''" "''0f3''" "constSdk 0"]
  by (simp add: bespoke_def)

text \<open>The input of the specification, \<open>"ab"\<close> against \<open>"abcd"\<close> under \<open>imatch\<close>, yields the sentinel.\<close>

theorem fallback_length_mismatch_returns_minus_one:
  "compareSimilarityHashes (constSdk 0) ''imatch'' ''ab'' ''abcd''
     = Inr (Some \<lparr>distance = Some (- 1), similarity = None\<rparr>)"
  by (simp add: compareSimilarityHashes_def hammingDistance_def)

text \<open>
  C2. Under the algorithm ids \<open>minhash\<close>, \<open>bbitminhash\<close> and \<open>superminhash\<close>, if the length
  of either input is not a multiple of 8, the promise resolves to \<open>null\<close>: it is not
  rejected, and no similarity is made up. This holds whatever the SDK does, which is
  not called.
\<close>

theorem minhash_bad_length_null:
  "algorithm \<in> {''minhash'', ''bbitminhash'', ''superminhash''} \<Longrightarrow>
   length hash1 mod 8 \<noteq> 0 \<or> length hash2 mod 8 \<noteq> 0 \<Longrightarrow>
   compareSimilarityHashes k algorithm hash1 hash2 = Inr None"
  by (auto simp: compareSimilarityHashes_def compareMinHash_def parseMinHashSignature_def
      split: option.splits)

theorem minhash_bad_length_null_witness:
  "''bbitminhash'' \<in> {''minhash'', ''bbitminhash'', ''superminhash''}
   \<and> length ''0000000a'' mod 8 = 0 \<and> length ''0000000a0b'' mod 8 = 2
   \<and> compareSimilarityHashes (constSdk 1) ''bbitminhash'' ''0000000a'' ''0000000a0b'' = Inr None"
  using minhash_bad_length_null [of "''bbitminhash''" "''0000000a''" "''0000000a0b''" "constSdk 1"]
  by simp

text \<open>
  C3. For every score that \<open>sdk.nilsimsaCompare\<close> returns and that is an integer \<open>n\<close> of
  magnitude at most \<open>2 ^ 53 - 128\<close>, which holds the nominal range from -128 to 128,
  \<open>compareNilsimsa\<close> returns the similarity \<open>(n + 128) / 256\<close> and the distance
  \<open>128 - n\<close>, and so does \<open>compareSimilarityHashes\<close> under the id \<open>nilsimsa\<close>. The bound
  is the range on which the double-precision arithmetic of the source is exact. The
  witness holds the three scores of the claim: 128 gives similarity 1 and distance 0,
  -128 gives similarity 0 and distance 256, and 0 gives similarity 1/2 and distance 128.
\<close>

theorem nilsimsa_normalisation:
  "nilsimsaCompare k hash1 hash2 = Inr (of_int n) \<Longrightarrow> \<bar>n\<bar> \<le> 2 ^ 53 - 128 \<Longrightarrow>
   compareNilsimsa k hash1 hash2
     = Inr \<lparr>distance = Some (128 - of_int n), similarity = Some ((of_int n + 128) / 256)\<rparr>
   \<and> compareSimilarityHashes k ''nilsimsa'' hash1 hash2
     = Inr (Some \<lparr>distance = Some (128 - of_int n),
                      similarity = Some ((of_int n + 128) / 256)\<rparr>)"
  by (simp add: compareSimilarityHashes_def compareNilsimsa_def)

theorem nilsimsa_normalisation_witness:
  "nilsimsaCompare (constSdk 128) ''aa'' ''aa'' = Inr (of_int 128)
   \<and> \<bar>128 :: int\<bar> \<le> 2 ^ 53 - 128
   \<and> compareNilsimsa (constSdk 128) ''aa'' ''aa'' = Inr \<lparr>distance = Some 0, similarity = Some 1\<rparr>
   \<and> nilsimsaCompare (constSdk (- 128)) ''aa'' ''55'' = Inr (of_int (- 128))
   \<and> \<bar>- 128 :: int\<bar> \<le> 2 ^ 53 - 128
   \<and> compareNilsimsa (constSdk (- 128)) ''aa'' ''55''
       = Inr \<lparr>distance = Some 256, similarity = Some 0\<rparr>
   \<and> nilsimsaCompare (constSdk 0) ''aa'' ''a5'' = Inr (of_int 0)
   \<and> \<bar>0 :: int\<bar> \<le> 2 ^ 53 - 128
   \<and> compareSimilarityHashes (constSdk 0) ''nilsimsa'' ''aa'' ''a5''
       = Inr (Some \<lparr>distance = Some 128, similarity = Some (1 / 2)\<rparr>)"
  using nilsimsa_normalisation [of "constSdk 128" "''aa''" "''aa''" 128]
    nilsimsa_normalisation [of "constSdk (- 128)" "''aa''" "''55''" "- 128"]
    nilsimsa_normalisation [of "constSdk 0" "''aa''" "''a5''" 0]
  by (simp add: constSdk_def)

text \<open>
  C4. For every algorithm id that is none of \<open>simhash\<close>, \<open>minhash\<close>, \<open>bbitminhash\<close>,
  \<open>superminhash\<close>, \<open>nilsimsa\<close> and \<open>imatch\<close>, \<open>compareSimilarityHashes\<close> resolves to the
  object holding the generic Hamming distance of the two strings; the promise is never
  rejected for an unknown algorithm.
\<close>

theorem unknown_algorithm_falls_back:
  "algorithm \<notin> {''simhash'', ''minhash'', ''bbitminhash'', ''superminhash'', ''nilsimsa'',
                 ''imatch''} \<Longrightarrow>
   compareSimilarityHashes k algorithm hash1 hash2 =
     Inr (Some \<lparr>distance = Some (of_int (hammingDistance hash1 hash2)), similarity = None\<rparr>)"
  by (simp add: compareSimilarityHashes_def)

theorem unknown_algorithm_falls_back_witness:
  "''sha256'' \<notin> {''simhash'', ''minhash'', ''bbitminhash'', ''superminhash'', ''nilsimsa'',
                  ''imatch''}
   \<and> compareSimilarityHashes (constSdk 0) ''sha256'' ''0f'' ''f1''
       = Inr (Some \<lparr>distance = Some 7, similarity = None\<rparr>)"
  using unknown_algorithm_falls_back [of "''sha256''" "constSdk 0" "''0f''" "''f1''"]
  by (simp add: hamming_eval)

text \<open>
  C6. The generic Hamming distance is symmetric: \<open>hammingDistance h1 h2\<close> equals
  \<open>hammingDistance h2 h1\<close>. It holds for all strings, so in particular for hexadecimal
  strings of equal length; on strings of unequal length both sides are -1.
\<close>

theorem hammingDistance_symmetric: "hammingDistance h1 h2 = hammingDistance h2 h1"
  by (auto simp: hammingDistance_def hammingLoop_commute)

text \<open>
  C7. Whenever \<open>compareSimilarityHashes\<close> resolves to an object (the promise is not
  rejected and the value is not \<open>null\<close>), the object has the field \<open>distance\<close> or the
  field \<open>similarity\<close>: an object with neither is never returned.
\<close>

theorem result_never_empty:
  "compareSimilarityHashes k algorithm hash1 hash2 = Inr (Some r) \<Longrightarrow>
   distance r \<noteq> None \<or> similarity r \<noteq> None"
  by (auto simp: compareSimilarityHashes_def compareSimHash_def compareMinHash_def
      compareNilsimsa_def Let_def split: if_splits sum.splits option.splits)

theorem result_never_empty_witness:
  "compareSimilarityHashes (constSdk (1 / 2)) ''minhash'' ''0000000a0000000b'' ''0000000a0000000c''
     = Inr (Some \<lparr>distance = None, similarity = Some (1 / 2)\<rparr>)
   \<and> distance \<lparr>distance = None, similarity = Some (1 / 2 :: real)\<rparr> = None
   \<and> similarity \<lparr>distance = None, similarity = Some (1 / 2 :: real)\<rparr> \<noteq> None"
proof -
  have r: "compareSimilarityHashes (constSdk (1 / 2)) ''minhash''
             ''0000000a0000000b'' ''0000000a0000000c''
           = Inr (Some \<lparr>distance = None, similarity = Some (1 / 2)\<rparr>)"
    by (simp add: compareSimilarityHashes_def compareMinHash_def parseMinHashSignature_def
        constSdk_def)
  from result_never_empty [OF r] r show ?thesis
    by simp
qed

text \<open>
  C8, as amended. The claim asks for an explicit failure when an input of the generic
  metric holds a character that is not a hexadecimal digit. The source has no such
  check anywhere: \<open>parseInt\<close> gives \<open>NaN\<close> for the character, and \<open>^\<close> turns \<open>NaN\<close> into 0.
  What holds is that for every algorithm id answered by the generic metric the promise
  resolves to an object with a numeric distance, which is the distance of the two
  strings after every character that is not a hexadecimal digit has been replaced by
  \<open>0\<close>; no failure is signalled.
\<close>

theorem fallback_nonhex_as_zero:
  "algorithm \<notin> bespoke \<Longrightarrow>
   compareSimilarityHashes k algorithm hash1 hash2 =
     Inr (Some \<lparr>distance = Some (of_int (hammingDistance (zeroNonHex hash1) (zeroNonHex hash2))),
                similarity = None\<rparr>)"
  by (simp add: fallback_result hammingDistance_zeroNonHex)

theorem fallback_nonhex_as_zero_witness:
  "''imatch'' \<notin> bespoke \<and> zeroNonHex ''g7'' = ''07'' \<and> zeroNonHex ''1x'' = ''10''
   \<and> hammingDistance ''07'' ''10'' = 4
   \<and> compareSimilarityHashes (constSdk 0) ''imatch'' ''g7'' ''1x''
       = Inr (Some \<lparr>distance = Some 4, similarity = None\<rparr>)"
proof -
  have z: "zeroNonHex ''g7'' = ''07''" "zeroNonHex ''1x'' = ''10''"
    by (simp_all add: zeroNonHex_def hexDigit_def)
  have h: "hammingDistance ''07'' ''10'' = 4"
    by (simp add: hamming_eval)
  have b: "''imatch'' \<notin> bespoke"
    by (simp add: bespoke_def)
  from fallback_nonhex_as_zero [OF b, of "constSdk 0" "''g7''" "''1x''"] z h b show ?thesis
    by simp
qed

text \<open>
  The string \<open>"zz"\<close>, which holds no hexadecimal digit, is at distance 0 from \<open>"00"\<close>: a
  number comes back, not a failure.
\<close>

theorem fallback_nonhex_numeric_result:
  "compareSimilarityHashes (constSdk 0) ''imatch'' ''zz'' ''00''
     = Inr (Some \<lparr>distance = Some 0, similarity = None\<rparr>)"
  by (simp add: compareSimilarityHashes_def hamming_eval)

section \<open>Objects: keys stay distinct\<close>

lemma objSet_keys:
  "map fst (objSet ob k v) = (if k \<in> set (map fst ob) then map fst ob else map fst ob @ [k])"
  by (induction ob) (auto simp: objSet_def split: if_splits)

lemma objSet_distinct: "distinct (map fst ob) \<Longrightarrow> distinct (map fst (objSet ob k v))"
  by (simp add: objSet_keys)

lemma foldl_objSet_distinct:
  "distinct (map fst ob) \<Longrightarrow> distinct (map fst (foldl (\<lambda>ob (k, v). objSet ob k v) ob kvs))"
proof (induction kvs arbitrary: ob)
  case Nil
  then show ?case by simp
next
  case (Cons kv kvs)
  obtain k v where kv: "kv = (k, v)" by (cases kv)
  from Cons.prems have "distinct (map fst (objSet ob k v))"
    by (rule objSet_distinct)
  from Cons.IH [OF this] show ?case
    by (simp add: kv)
qed

lemma fromEntries_distinct: "distinct (keys (fromEntries kvs))"
  unfolding keys_def fromEntries_def by (rule foldl_objSet_distinct) simp

lemma foldl_objSet_fresh:
  "distinct (map fst (ob @ kvs)) \<Longrightarrow> foldl (\<lambda>ob (k, v). objSet ob k v) ob kvs = ob @ kvs"
proof (induction kvs arbitrary: ob)
  case Nil
  then show ?case by simp
next
  case (Cons kv kvs)
  obtain k v where kv: "kv = (k, v)" by (cases kv)
  from Cons.prems have fresh: "k \<notin> fst ` set ob"
    by (auto simp: kv)
  then have step: "objSet ob k v = ob @ [(k, v)]"
    by (simp add: objSet_def)
  from Cons.prems have "distinct (map fst ((ob @ [(k, v)]) @ kvs))"
    by (simp add: kv)
  from Cons.IH [OF this] show ?case
    by (simp add: kv step)
qed

lemma objLiteral_fresh: "distinct (map fst kvs) \<Longrightarrow> objLiteral kvs = kvs"
  unfolding objLiteral_def using foldl_objSet_fresh [of "[]" kvs] by simp

lemma fromEntries_fresh: "distinct (map fst kvs) \<Longrightarrow> fromEntries kvs = kvs"
  unfolding fromEntries_def using foldl_objSet_fresh [of "[]" kvs] by simp

section \<open>The catalog\<close>

lemma literal_summary:
  "map (\<lambda>(i, c). (i, category c, uiMode c, supportsComparison c)) RAW_HASH_ALGORITHMS_literal
     = catalogSummary"
  by (simp add: RAW_HASH_ALGORITHMS_literal_def catalogSummary_def algo_def)

lemma literal_keys: "map fst RAW_HASH_ALGORITHMS_literal = map fst catalogSummary"
proof -
  have "map fst catalogSummary
          = map (fst \<circ> (\<lambda>(i, c). (i, category c, uiMode c, supportsComparison c)))
                RAW_HASH_ALGORITHMS_literal"
    by (simp add: literal_summary [symmetric])
  also have "fst \<circ> (\<lambda>(i, c). (i, category c, uiMode c, supportsComparison c))
               = (fst :: string \<times> HashAlgorithm \<Rightarrow> string)"
    by (auto simp: fun_eq_iff)
  finally show ?thesis by simp
qed

lemma catalogSummary_distinct: "distinct (map fst catalogSummary)"
  by (simp add: catalogSummary_def)

text \<open>No key is written twice in the literal, so no entry of it is overwritten.\<close>

lemma literal_distinct: "distinct (map fst RAW_HASH_ALGORITHMS_literal)"
  by (simp add: literal_keys catalogSummary_distinct)

lemma literal_no_proto: "''__proto__'' \<notin> set (map fst RAW_HASH_ALGORITHMS_literal)"
  unfolding literal_keys by code_simp

lemma RAW_HASH_ALGORITHMS_eq: "RAW_HASH_ALGORITHMS = RAW_HASH_ALGORITHMS_literal"
  unfolding RAW_HASH_ALGORITHMS_def by (rule objLiteral_fresh) (rule literal_distinct)

lemma withDemo_fst: "fst \<circ> withDemo = fst"
  by (auto simp: fun_eq_iff withDemo_def)

lemma HASH_ALGORITHMS_eq: "HASH_ALGORITHMS = map withDemo RAW_HASH_ALGORITHMS_literal"
proof -
  have "HASH_ALGORITHMS = fromEntries (map withDemo RAW_HASH_ALGORITHMS_literal)"
    by (simp add: HASH_ALGORITHMS_def RAW_HASH_ALGORITHMS_eq withDemo_def)
  also have "\<dots> = map withDemo RAW_HASH_ALGORITHMS_literal"
    by (rule fromEntries_fresh) (simp add: withDemo_fst literal_distinct)
  finally show ?thesis .
qed

lemma HASH_ALGORITHMS_summary:
  "map (\<lambda>(i, c). (i, category c, uiMode c, supportsComparison c)) HASH_ALGORITHMS
     = catalogSummary"
proof -
  have "(\<lambda>(i, c). (i, category c, uiMode c, supportsComparison c)) \<circ> withDemo
          = (\<lambda>(i, c). (i, category c, uiMode c, supportsComparison c))"
    by (auto simp: fun_eq_iff withDemo_def)
  then show ?thesis
    by (simp add: HASH_ALGORITHMS_eq literal_summary [symmetric])
qed

lemma HASH_ALGORITHMS_keys: "keys HASH_ALGORITHMS = map fst catalogSummary"
  by (simp add: keys_def HASH_ALGORITHMS_eq withDemo_fst literal_keys)

lemma catalogSummary_comparison:
  "\<forall>(i, cat, ui, sc) \<in> set catalogSummary.
     sc = Some True \<longrightarrow> cat = ''Similarity'' \<and> ui = Some UI_similarity"
  by code_simp

section \<open>The categories\<close>

lemma foldl_categoryStep:
  "\<forall>(i, c) \<in> set xs. map_of HASH_ALGORITHMS i = Some c \<Longrightarrow>
   foldl categoryStep acc (map fst xs) = foldl groupStep acc (map (\<lambda>(i, c). (i, category c)) xs)"
proof (induction xs arbitrary: acc)
  case Nil
  then show ?case by simp
next
  case (Cons x xs)
  obtain i c where x: "x = (i, c)" by (cases x)
  from Cons.prems have look: "map_of HASH_ALGORITHMS i = Some c"
    by (simp add: x)
  have step: "categoryStep acc i = groupStep acc (i, category c)"
    by (simp add: categoryStep_def groupStep_def look split: sum.splits lookup.splits)
  from Cons.prems have "\<forall>(i, c) \<in> set xs. map_of HASH_ALGORITHMS i = Some c"
    by simp
  from Cons.IH [OF this] show ?case
    by (simp add: x step)
qed

lemma HASH_ALGORITHMS_lookup: "\<forall>(i, c) \<in> set HASH_ALGORITHMS. map_of HASH_ALGORITHMS i = Some c"
proof -
  have "distinct (map fst HASH_ALGORITHMS)"
    using fromEntries_distinct [of "map (\<lambda>(i, cfg). (i, cfg\<lparr>demo := Some (nodeCryptoName cfg = None)\<rparr>)) RAW_HASH_ALGORITHMS"]
    by (simp add: HASH_ALGORITHMS_def keys_def)
  then show ?thesis
    by (auto intro: map_of_is_SomeI)
qed

lemma getAlgorithmsByCategory_groupStep:
  "getAlgorithmsByCategory
     = foldl groupStep (Inr []) (map (\<lambda>(i, cat, ui, sc). (i, cat)) catalogSummary)"
proof -
  have "getAlgorithmsByCategory
          = foldl groupStep (Inr []) (map (\<lambda>(i, c). (i, category c)) HASH_ALGORITHMS)"
    unfolding getAlgorithmsByCategory_def keys_def
    by (rule foldl_categoryStep) (rule HASH_ALGORITHMS_lookup)
  also have "map (\<lambda>(i, c). (i, category c)) HASH_ALGORITHMS
               = map ((\<lambda>(i, cat, ui, sc). (i, cat))
                       \<circ> (\<lambda>(i, c). (i, category c, uiMode c, supportsComparison c)))
                     HASH_ALGORITHMS"
    by (simp add: comp_def case_prod_unfold)
  also have "\<dots> = map (\<lambda>(i, cat, ui, sc). (i, cat)) catalogSummary"
    by (simp add: HASH_ALGORITHMS_summary [symmetric])
  finally show ?thesis .
qed

lemma getAlgorithmsByCategory_value:
  "getAlgorithmsByCategory =
     Inr [(''Cryptographic'',
           [''md5'', ''sha1'', ''ripemd160'', ''keccak-224'', ''keccak-256'', ''keccak-384'',
            ''keccak-512'', ''blake1-224'', ''blake1-256'', ''blake1-384'', ''blake1-512'',
            ''has160'', ''gost'', ''streebog'', ''md2'', ''md4'']),
          (''SHA-2'',
           [''sha224'', ''sha256'', ''sha384'', ''sha512'', ''sha512-224'', ''sha512-256'']),
          (''SHA-3'', [''sha3-224'', ''sha3-256'', ''sha3-384'', ''sha3-512'']),
          (''SHAKE'', [''shake128'', ''shake256'']),
          (''BLAKE2'', [''blake2b512'', ''blake2s256'']),
          (''Non-cryptographic'',
           [''murmurhash'', ''djb2'', ''sdbm'', ''fnv-1'', ''fnv-1a'', ''jenkins-one-at-a-time'',
            ''pearson'', ''bernstein'', ''elf-hash'', ''zobrist'', ''tabulation'', ''rs-hash'',
            ''js-hash'', ''bkdr-hash'', ''dek-hash'', ''ap-hash'', ''murmurhash128'',
            ''fnv-1-64'', ''fnv-1a-64'', ''xxhash32'', ''xxhash64'', ''xxhash128'', ''cityhash'',
            ''farmhash'', ''metrohash'', ''t1ha'']),
          (''Checksum'',
           [''crc-32'', ''adler32'', ''crc-16'', ''crc-8'', ''crc-64'', ''internet-checksum'',
            ''fletcher-4'', ''fletcher-8'', ''fletcher-16'', ''fletcher-32'', ''luhn'',
            ''verhoeff'', ''damm'']),
          (''Modern'',
           [''blake3'', ''cshake128'', ''cshake256'', ''turboshake128'', ''turboshake256'',
            ''tuplehash256'', ''parallelhash256'', ''kt128'', ''kt256'', ''highwayhash'',
            ''siphash'', ''poly1305'', ''cmac'', ''hmac'', ''hkdf'', ''cubehash'', ''echo'',
            ''skein'', ''blue-midnight-wish'', ''gr'' @ [CHR 0xF8] @ ''stl'']),
          (''Similarity'',
           [''simhash'', ''minhash'', ''bbitminhash'', ''superminhash'', ''nilsimsa'',
            ''imatch'']),
          (''Password'', [''argon2i'', ''argon2d'', ''argon2id'', ''scrypt'', ''pbkdf2''])]"
  (is "_ = ?rhs")
proof -
  have "foldl groupStep (Inr []) (map (\<lambda>(i, cat, ui, sc). (i, cat)) catalogSummary) = ?rhs"
    by code_simp
  then show ?thesis
    by (simp only: getAlgorithmsByCategory_groupStep)
qed

lemma ALL_CATEGORY_TITLES_value:
  "ALL_CATEGORY_TITLES =
     [''Cryptographic'', ''SHA-2'', ''SHA-3'', ''SHAKE'', ''BLAKE2'', ''Non-cryptographic'',
      ''Checksum'', ''Modern'', ''Similarity'', ''Password'']"
  by (simp add: ALL_CATEGORY_TITLES_def getAlgorithmsByCategory_value keys_def)

section \<open>Slugs\<close>


lemma slugs_of_titles:
  "map hashCategoryNameToSlug
     [''Cryptographic'', ''SHA-2'', ''SHA-3'', ''SHAKE'', ''BLAKE2'', ''Non-cryptographic'',
      ''Checksum'', ''Modern'', ''Similarity'', ''Password''] =
     [''cryptographic'', ''sha-2'', ''sha-3'', ''shake'', ''blake2'', ''non-cryptographic'',
      ''checksum'', ''modern'', ''similarity'', ''password'']"
  by code_simp

lemma slugToCategoryMap_value:
  "slugToCategoryMap =
     [(''cryptographic'', ''Cryptographic''), (''sha-2'', ''SHA-2''), (''sha-3'', ''SHA-3''),
      (''shake'', ''SHAKE''), (''blake2'', ''BLAKE2''),
      (''non-cryptographic'', ''Non-cryptographic''), (''checksum'', ''Checksum''),
      (''modern'', ''Modern''), (''similarity'', ''Similarity''), (''password'', ''Password'')]"
  using slugs_of_titles
  by (simp add: slugToCategoryMap_def ALL_CATEGORY_TITLES_value objSet_def Let_def)

lemma catalog_entry_summary:
  assumes "(i, cfg) \<in> set HASH_ALGORITHMS"
  shows "(i, category cfg, uiMode cfg, supportsComparison cfg) \<in> set catalogSummary"
proof -
  have "(\<lambda>(i, c). (i, category c, uiMode c, supportsComparison c)) (i, cfg)
          \<in> set (map (\<lambda>(i, c). (i, category c, uiMode c, supportsComparison c)) HASH_ALGORITHMS)"
    using assms by (simp only: set_map) (rule imageI)
  then show ?thesis
    by (simp only: HASH_ALGORITHMS_summary) simp
qed

lemma catalogSummary_titles:
  "\<forall>(i, cat, ui, sc) \<in> set catalogSummary.
     cat \<in> set [''Cryptographic'', ''SHA-2'', ''SHA-3'', ''SHAKE'', ''BLAKE2'',
                ''Non-cryptographic'', ''Checksum'', ''Modern'', ''Similarity'', ''Password'']"
  by code_simp

text \<open>Every category of the catalog is one of \<open>ALL_CATEGORY_TITLES\<close>.\<close>

lemma catalog_categories_titles:
  assumes "(i, cfg) \<in> set HASH_ALGORITHMS"
  shows "category cfg \<in> set ALL_CATEGORY_TITLES"
  using catalog_entry_summary [OF assms] catalogSummary_titles
  unfolding ALL_CATEGORY_TITLES_value by fastforce

lemma titles_round_trip:
  "list_all (\<lambda>c. hashCategorySlugToName (hashCategoryNameToSlug c) = Str c)
     [''Cryptographic'', ''SHA-2'', ''SHA-3'', ''SHAKE'', ''BLAKE2'', ''Non-cryptographic'',
      ''Checksum'', ''Modern'', ''Similarity'', ''Password'']"
  using slugs_of_titles
  by (simp add: hashCategorySlugToName_def slugToCategoryMap_value objGet_def)

text \<open>
  A slug that no category has and that is not the name of a member of
  \<open>Object.prototype\<close> comes back unchanged.
\<close>

lemma unknown_slug_unchanged:
  assumes "slug \<notin> set (map hashCategoryNameToSlug ALL_CATEGORY_TITLES)"
    and "slug \<notin> set protoNames"
  shows "hashCategorySlugToName slug = Str slug"
proof -
  have "map hashCategoryNameToSlug ALL_CATEGORY_TITLES =
          [''cryptographic'', ''sha-2'', ''sha-3'', ''shake'', ''blake2'', ''non-cryptographic'',
           ''checksum'', ''modern'', ''similarity'', ''password'']"
    by (simp only: ALL_CATEGORY_TITLES_value slugs_of_titles)
  with assms(1) have "map_of slugToCategoryMap slug = None"
    by (simp add: slugToCategoryMap_value)
  with assms(2) show ?thesis
    by (simp add: hashCategorySlugToName_def objGet_def)
qed

lemma not_a_real_slug: "hashCategorySlugToName ''not-a-real-slug'' = Str ''not-a-real-slug''"
  by (simp add: hashCategorySlugToName_def slugToCategoryMap_value objGet_def protoNames_def)

section \<open>Properties of the catalog\<close>

text \<open>
  C5. For every category name \<open>c\<close> of the catalog, that is, every member of
  \<open>ALL_CATEGORY_TITLES\<close>, which lemma \<open>catalog_categories_titles\<close> shows to hold the
  category of every algorithm, the slug of \<open>c\<close> is mapped back to \<open>c\<close>:
  \<open>hashCategorySlugToName (hashCategoryNameToSlug c)\<close> is the string \<open>c\<close>.
\<close>

theorem category_slug_round_trip:
  "c \<in> set ALL_CATEGORY_TITLES \<Longrightarrow>
   hashCategorySlugToName (hashCategoryNameToSlug c) = Str c"
  using titles_round_trip unfolding ALL_CATEGORY_TITLES_value list_all_iff by blast

theorem category_slug_round_trip_witness:
  "''SHA-2'' \<in> set ALL_CATEGORY_TITLES \<and> hashCategoryNameToSlug ''SHA-2'' = ''sha-2''
   \<and> hashCategorySlugToName ''sha-2'' = Str ''SHA-2''"
proof -
  have m: "''SHA-2'' \<in> set ALL_CATEGORY_TITLES"
    by (simp add: ALL_CATEGORY_TITLES_value)
  have s: "hashCategoryNameToSlug ''SHA-2'' = ''sha-2''"
    using slugs_of_titles by simp
  from category_slug_round_trip [OF m] m s show ?thesis
    by simp
qed

text \<open>
  C9. The ids of the registry \<open>HASH_ALGORITHMS\<close> are pairwise distinct, and every
  descriptor of the registry with \<open>supportsComparison\<close> set to \<open>true\<close> has the category
  \<open>Similarity\<close>, and the UI mode \<open>similarity\<close> as well.
\<close>

theorem registry_invariant:
  "distinct (keys HASH_ALGORITHMS)
   \<and> (\<forall>(i, cfg) \<in> set HASH_ALGORITHMS.
        supportsComparison cfg = Some True \<longrightarrow>
        category cfg = ''Similarity'' \<and> uiMode cfg = Some UI_similarity)"
proof
  show "distinct (keys HASH_ALGORITHMS)"
    unfolding HASH_ALGORITHMS_def by (rule fromEntries_distinct)
next
  show "\<forall>(i, cfg) \<in> set HASH_ALGORITHMS.
          supportsComparison cfg = Some True \<longrightarrow>
          category cfg = ''Similarity'' \<and> uiMode cfg = Some UI_similarity"
  proof (clarify)
    fix i cfg
    assume mem: "(i, cfg) \<in> set HASH_ALGORITHMS" and sc: "supportsComparison cfg = Some True"
    from catalog_entry_summary [OF mem] catalogSummary_comparison sc
    show "category cfg = ''Similarity'' \<and> uiMode cfg = Some UI_similarity"
      by fastforce
  qed
qed

theorem registry_invariant_witness:
  "(let cfg = (algo ''SimHash''
                 ''Locality-sensitive SimHash for document similarity - finds near-duplicate content efficiently''
                 ''Similarity'')
               \<lparr>outputLength := Some 8, demo := Some True, uiMode := Some UI_similarity,
                supportsComparison := Some True\<rparr>
    in (''simhash'', cfg) \<in> set HASH_ALGORITHMS \<and> supportsComparison cfg = Some True
       \<and> category cfg = ''Similarity'' \<and> uiMode cfg = Some UI_similarity)"
proof -
  define cfg where "cfg = (algo ''SimHash''
                 ''Locality-sensitive SimHash for document similarity - finds near-duplicate content efficiently''
                 ''Similarity'')
               \<lparr>outputLength := Some 8, demo := Some True, uiMode := Some UI_similarity,
                supportsComparison := Some True\<rparr>"
  have mem: "(''simhash'', cfg) \<in> set HASH_ALGORITHMS"
    unfolding HASH_ALGORITHMS_eq cfg_def
    by (simp add: RAW_HASH_ALGORITHMS_literal_def withDemo_def algo_def)
  have sc: "supportsComparison cfg = Some True"
    by (simp add: cfg_def)
  from registry_invariant mem sc
  have "category cfg = ''Similarity'' \<and> uiMode cfg = Some UI_similarity"
    by fastforce
  with mem sc show ?thesis
    unfolding cfg_def Let_def by simp
qed

text \<open>
  C10. The claim is that every slug that belongs to no category comes back unchanged.
  The source reads \<open>slugToCategoryMap[slug]\<close> from an object created by \<open>{}\<close>, so the
  slug \<open>constructor\<close>, which belongs to no category, finds the member of
  \<open>Object.prototype\<close> of that name, and \<open>||\<close> returns that member instead of the slug.
  Lemma \<open>unknown_slug_unchanged\<close> gives the slugs on which the claim does hold, and
  lemma \<open>not_a_real_slug\<close> the instance that the claim names.
\<close>

theorem slug_constructor_not_returned:
  "''constructor'' \<notin> set (map hashCategoryNameToSlug ALL_CATEGORY_TITLES)
   \<and> hashCategorySlugToName ''constructor'' = ProtoMember ''constructor''
   \<and> hashCategorySlugToName ''constructor'' \<noteq> Str ''constructor''"
proof -
  have "''constructor'' \<notin> set (map hashCategoryNameToSlug ALL_CATEGORY_TITLES)"
    by (simp only: ALL_CATEGORY_TITLES_value slugs_of_titles) simp
  moreover have "hashCategorySlugToName ''constructor'' = ProtoMember ''constructor''"
    by (simp add: hashCategorySlugToName_def slugToCategoryMap_value objGet_def protoNames_def)
  ultimately show ?thesis
    by simp
qed

end
